theory Spec2Isabelle
  imports Main "HOL-Library.AList" "HOL-Library.Word"
begin

section \<open>Values shared by all components\<close>

text \<open>
  Every public method of the managers returns a dictionary that is either
  \<^verbatim>\<open>{'success': True, ...}\<close> or \<^verbatim>\<open>{'success': False, 'error': msg}\<close>.
  The first becomes \<open>Succeeded\<close> with the payload the callers read, the second
  \<open>Failed\<close> with the message.
\<close>

datatype 'a outcome = Succeeded 'a | Failed string

fun success :: "'a outcome \<Rightarrow> bool" where
  "success (Succeeded _) = True"
| "success (Failed _) = False"

text \<open>The host family, \<^verbatim>\<open>os.name == 'nt'\<close> or anything else.\<close>

datatype platform = NT | Posix

section \<open>IsoManager: image validation\<close>

text \<open>
  A file as \<^verbatim>\<open>validate_iso_file\<close> sees it: its bytes, and whether
  \<^verbatim>\<open>os.path.getsize\<close> or \<^verbatim>\<open>open\<close> raise on it (with the exception's text).
  A path without a file is \<open>None\<close> in the directory, which is what
  \<^verbatim>\<open>os.path.exists\<close> tests.
\<close>

type_synonym byte = "8 word"

record iso_file =
  data :: "byte list"
  getsize_error :: "string option"
  open_error :: "string option"

type_synonym directory = "string \<rightharpoonup> iso_file"

datatype validation = Valid nat | Invalid string

definition CD001 :: "byte list" where
  "CD001 = [0x43, 0x44, 0x30, 0x30, 0x31]"

text \<open>
  \<^verbatim>\<open>_verify_iso_structure\<close>: reads 2048 bytes, and any exception gives False.
\<close>

definition verify_iso_structure :: "directory \<Rightarrow> string \<Rightarrow> bool" where
  "verify_iso_structure fs iso_path =
     (case fs iso_path of
        None \<Rightarrow> False
      | Some f \<Rightarrow>
         (case open_error f of
            Some e \<Rightarrow> False
          | None \<Rightarrow>
             (let header = take 2048 (data f) in
              if length header < 2048 then False
              else if take 5 header = CD001 then True
              else if take 4 header = [0, 0, 0, 0] then True
              else False)))"

definition validate_iso_file :: "directory \<Rightarrow> string \<Rightarrow> validation" where
  "validate_iso_file fs iso_path =
     (case fs iso_path of
        None \<Rightarrow> Invalid ''File does not exist''
      | Some f \<Rightarrow>
         (case getsize_error f of
            Some e \<Rightarrow> Invalid e
          | None \<Rightarrow>
             (let file_size = length (data f) in
              if file_size < 1024 * 1024 then Invalid ''File too small to be valid ISO''
              else if \<not> verify_iso_structure fs iso_path then Invalid ''Invalid ISO structure''
              else Valid file_size)))"

section \<open>Strings and paths\<close>

text \<open>
  File names are \<open>string\<close>s of 8-bit characters; \<^verbatim>\<open>str.lower\<close> and
  \<^verbatim>\<open>re.IGNORECASE\<close> are modelled on them by folding the letters A to Z.
\<close>

definition lower_char :: "char \<Rightarrow> char" where
  "lower_char c =
     (case map_of (zip ''ABCDEFGHIJKLMNOPQRSTUVWXYZ'' ''abcdefghijklmnopqrstuvwxyz'') c of
        Some d \<Rightarrow> d
      | None \<Rightarrow> c)"

definition lower :: "string \<Rightarrow> string" where
  "lower s = map lower_char s"

primrec startswith :: "'a list \<Rightarrow> 'a list \<Rightarrow> bool" where
  "startswith s [] = True"
| "startswith s (p # ps) = (case s of [] \<Rightarrow> False | c # cs \<Rightarrow> c = p \<and> startswith cs ps)"

text \<open>\<^verbatim>\<open>p in s\<close> on strings: \<open>p\<close> occurs in \<open>s\<close> as a contiguous block.\<close>

primrec contains :: "'a list \<Rightarrow> 'a list \<Rightarrow> bool" where
  "contains [] p = (p = [])"
| "contains (c # cs) p = (startswith (c # cs) p \<or> contains cs p)"

text \<open>
  \<^verbatim>\<open>re.search(pattern, file, re.IGNORECASE)\<close> for a pattern without regular-expression
  metacharacters, which is what every pattern of \<^verbatim>\<open>os_signatures\<close> is (letters, digits
  and one space): the pattern occurs in the name, letter case ignored.
\<close>

definition re_search_ignorecase :: "string \<Rightarrow> string \<Rightarrow> bool" where
  "re_search_ignorecase pattern s = contains (lower s) (lower pattern)"

text \<open>\<^verbatim>\<open>os.path.join\<close> of two components, with the separator \<^verbatim>\<open>/\<close>.\<close>

definition path_join :: "string \<Rightarrow> string \<Rightarrow> string" where
  "path_join a b =
     (if b \<noteq> [] \<and> hd b = CHR ''/'' then b
      else if a = [] \<or> last a = CHR ''/'' then a @ b
      else a @ ''/'' @ b)"

section \<open>File trees\<close>

text \<open>
  The tree under a mount point: a file has a name and a content, a directory a name and
  its entries. \<open>walk\<close> is \<^verbatim>\<open>os.walk\<close>, top down: one triple
  \<^verbatim>\<open>(root, dirs, files)\<close> per directory, the directory itself before its
  subdirectories.
\<close>

datatype fs_node = File string string | Dir string "fs_node list"

type_synonym tree = "fs_node list"

fun node_name :: "fs_node \<Rightarrow> string" where
  "node_name (File n c) = n"
| "node_name (Dir n es) = n"

fun file_names :: "tree \<Rightarrow> string list" where
  "file_names [] = []"
| "file_names (File n c # es) = n # file_names es"
| "file_names (Dir n sub # es) = file_names es"

fun dir_names :: "tree \<Rightarrow> string list" where
  "dir_names [] = []"
| "dir_names (File n c # es) = dir_names es"
| "dir_names (Dir n sub # es) = n # dir_names es"

fun walk_node :: "string \<Rightarrow> fs_node \<Rightarrow> (string \<times> string list \<times> string list) list"
  and walk_nodes :: "string \<Rightarrow> tree \<Rightarrow> (string \<times> string list \<times> string list) list" where
  "walk_node parent (File n c) = []"
| "walk_node parent (Dir n es) =
     (path_join parent n, dir_names es, file_names es) # walk_nodes (path_join parent n) es"
| "walk_nodes parent [] = []"
| "walk_nodes parent (e # es) = walk_node parent e @ walk_nodes parent es"

definition walk :: "tree \<Rightarrow> string \<Rightarrow> (string \<times> string list \<times> string list) list" where
  "walk t directory = (directory, dir_names t, file_names t) # walk_nodes directory t"

text \<open>\<^verbatim>\<open>os.path.exists(os.path.join(top, c1, ..., cn))\<close> and the node found there.\<close>

fun lookup :: "tree \<Rightarrow> string list \<Rightarrow> fs_node option" where
  "lookup es [] = None"
| "lookup es [n] = find (\<lambda>e. node_name e = n) es"
| "lookup es (n # ns) =
     (case find (\<lambda>e. node_name e = n) es of
        Some (Dir d sub) \<Rightarrow> lookup sub ns
      | _ \<Rightarrow> None)"

section \<open>OsDetector: classification of a mounted image\<close>

record signature =
  patterns :: "string list"
  files :: "string list"
  directories :: "string list"

definition windows_signature :: signature where
  "windows_signature =
     \<lparr>patterns = [''windows'', ''winnt'', ''win32''],
      files = [''bootmgr'', ''ntldr'', ''winload.exe''],
      directories = [''Windows'', ''Program Files'']\<rparr>"

definition linux_signature :: signature where
  "linux_signature =
     \<lparr>patterns = [''linux'', ''ubuntu'', ''debian'', ''fedora'', ''centos''],
      files = [''vmlinuz'', ''initrd.img'', ''grub.cfg''],
      directories = [''boot'', ''etc'', ''usr'']\<rparr>"

definition macos_signature :: signature where
  "macos_signature =
     \<lparr>patterns = [''macos'', ''darwin'', ''mac os''],
      files = [''mach_kernel'', ''boot.efi''],
      directories = [''System'', ''Applications'']\<rparr>"

text \<open>The dictionary \<^verbatim>\<open>os_signatures\<close>, in its insertion order, which is the order
  \<^verbatim>\<open>.items()\<close> iterates in.\<close>

definition os_signatures :: "(string \<times> signature) list" where
  "os_signatures =
     [(''windows'', windows_signature), (''linux'', linux_signature),
      (''macos'', macos_signature)]"

text \<open>
  \<^verbatim>\<open>_search_in_directory\<close>: the first file name of the walk that matches ends the
  search with True.
\<close>

definition search_in_directory :: "tree \<Rightarrow> string \<Rightarrow> string \<Rightarrow> bool \<Rightarrow> bool" where
  "search_in_directory t directory pattern regex =
     list_ex (\<lambda>(root, dirs, fs).
        list_ex (\<lambda>file.
           if regex then re_search_ignorecase pattern file
           else contains (lower file) (lower pattern)) fs)
       (walk t directory)"

text \<open>The three loops of \<^verbatim>\<open>_matches_signatures\<close>, each returning True at its first hit.\<close>

definition pattern_rule :: "tree \<Rightarrow> string \<Rightarrow> signature \<Rightarrow> bool" where
  "pattern_rule t mount_point sig =
     list_ex (\<lambda>pattern. search_in_directory t mount_point pattern True) (patterns sig)"

definition marker_file_rule :: "tree \<Rightarrow> string \<Rightarrow> signature \<Rightarrow> bool" where
  "marker_file_rule t mount_point sig =
     list_ex (\<lambda>file_name. search_in_directory t mount_point file_name False) (files sig)"

definition marker_directory_rule :: "tree \<Rightarrow> string \<Rightarrow> signature \<Rightarrow> bool" where
  "marker_directory_rule t mount_point sig =
     list_ex (\<lambda>dir_name. lookup t [dir_name] \<noteq> None) (directories sig)"

definition matches_signatures :: "tree \<Rightarrow> string \<Rightarrow> signature \<Rightarrow> bool" where
  "matches_signatures t mount_point sig =
     (if pattern_rule t mount_point sig then True
      else if marker_file_rule t mount_point sig then True
      else if marker_directory_rule t mount_point sig then True
      else False)"

text \<open>
  \<^verbatim>\<open>re.search(key + '="([^"]+)"', content)\<close>, group 1: at the leftmost place where
  the key, an equals sign and a quote are followed by at least one character other than
  a quote and then a quote.
\<close>

fun re_quoted :: "string \<Rightarrow> string \<Rightarrow> string option" where
  "re_quoted key [] = None"
| "re_quoted key (c # cs) =
     (let opening = key @ [CHR ''='', CHR 0x22];
          rest = drop (length opening) (c # cs);
          v = takeWhile (\<lambda>x. x \<noteq> CHR 0x22) rest
      in if startswith (c # cs) opening \<and> v \<noteq> [] \<and> dropWhile (\<lambda>x. x \<noteq> CHR 0x22) rest \<noteq> []
         then Some v
         else re_quoted key cs)"

type_synonym os_info = "string \<rightharpoonup> string"

definition extract_windows_version :: "tree \<Rightarrow> string \<Rightarrow> os_info" where
  "extract_windows_version t mount_point =
     foldl (\<lambda>version_info (root, dirs, fs).
              case find (\<lambda>file. lower file = ''setup.exe'') fs of
                None \<Rightarrow> version_info
              | Some file \<Rightarrow> version_info(''installer'' \<mapsto> path_join root file))
       [''name'' \<mapsto> ''Windows'', ''version'' \<mapsto> ''Unknown'']
       (walk t mount_point)"

definition extract_linux_version :: "tree \<Rightarrow> string \<Rightarrow> os_info" where
  "extract_linux_version t mount_point =
     (case lookup t [''etc'', ''os-release''] of
        None \<Rightarrow> [''name'' \<mapsto> ''Linux'', ''version'' \<mapsto> ''Unknown'']
      | Some (Dir d sub) \<Rightarrow> [''name'' \<mapsto> ''Linux'', ''version'' \<mapsto> ''Unknown'']
      | Some (File f content) \<Rightarrow>
          [''name'' \<mapsto> (case re_quoted ''NAME'' content of Some v \<Rightarrow> v | None \<Rightarrow> ''Linux''),
           ''version'' \<mapsto>
              (case re_quoted ''VERSION'' content of Some v \<Rightarrow> v | None \<Rightarrow> ''Unknown'')])"

definition extract_macos_version :: "tree \<Rightarrow> string \<Rightarrow> os_info" where
  "extract_macos_version t mount_point =
     (if lookup t [''System'', ''Library'', ''CoreServices'', ''SystemVersion.plist''] \<noteq> None
      then [''name'' \<mapsto> ''macOS'', ''version'' \<mapsto> ''Unknown'',
            ''version_file'' \<mapsto>
               path_join (path_join (path_join (path_join mount_point ''System'') ''Library'')
                  ''CoreServices'') ''SystemVersion.plist'']
      else [''name'' \<mapsto> ''macOS'', ''version'' \<mapsto> ''Unknown''])"

definition extract_version_info :: "tree \<Rightarrow> string \<Rightarrow> string \<Rightarrow> os_info" where
  "extract_version_info t mount_point os_type =
     (if os_type = ''windows'' then extract_windows_version t mount_point
      else if os_type = ''linux'' then extract_linux_version t mount_point
      else if os_type = ''macos'' then extract_macos_version t mount_point
      else Map.empty)"

text \<open>
  The loop of \<^verbatim>\<open>_analyze_mounted_iso\<close> over the signatures, left at the first family
  that matches; \<open>++\<close> is \<^verbatim>\<open>dict.update\<close>.
\<close>

fun analyze_loop :: "tree \<Rightarrow> string \<Rightarrow> (string \<times> signature) list \<Rightarrow> os_info \<Rightarrow> os_info" where
  "analyze_loop t mount_point [] info = info"
| "analyze_loop t mount_point ((os_type, sig) # rest) info =
     (if matches_signatures t mount_point sig
      then info(''type'' \<mapsto> os_type) ++ extract_version_info t mount_point os_type
      else analyze_loop t mount_point rest info)"

definition analyze_mounted_iso :: "tree \<Rightarrow> string \<Rightarrow> os_info" where
  "analyze_mounted_iso t mount_point =
     analyze_loop t mount_point os_signatures
       [''name'' \<mapsto> ''Unknown'', ''version'' \<mapsto> ''Unknown'',
        ''architecture'' \<mapsto> ''Unknown'', ''type'' \<mapsto> ''Unknown'']"

text \<open>Every file name the walk visits, in its order.\<close>

definition tree_file_names :: "tree \<Rightarrow> string \<Rightarrow> string list" where
  "tree_file_names t directory = concat (map (\<lambda>(root, dirs, fs). fs) (walk t directory))"

section \<open>External commands and the state of the program\<close>

text \<open>
  A call of \<^verbatim>\<open>subprocess.run\<close>: with an argument vector, or with one string and
  \<^verbatim>\<open>shell=True\<close>. It raises (the exception's text, \<open>Inl\<close>) or returns the
  completed process with its exit status and error output.
\<close>

datatype command = Argv "string list" | Shell string

record completed =
  returncode :: int
  stderr :: string

text \<open>
  What one call of a method is given by its surroundings: the host family, the behaviour of
  the external tools, the parts of the file system the program only reads, the clock, and
  the failures of the library calls it makes (\<^verbatim>\<open>tempfile.mkdtemp\<close>,
  \<^verbatim>\<open>os.makedirs\<close>, the archive libraries, writing the boot configuration,
  \<^verbatim>\<open>os.listdir\<close>), each as the text of the exception raised, and the directories
  that \<^verbatim>\<open>shutil.rmtree\<close> cannot remove.
\<close>

record env =
  os_name :: platform
  run :: "command \<Rightarrow> string + completed"
  path_exists :: "string \<Rightarrow> bool"
  mkdtemp :: "string \<Rightarrow> string + string"
  makedirs_error :: "string option"
  strftime_now :: string
  isoformat_now :: string
  archive_error :: "string option"
  extract_error :: "string option"
  grub_write_error :: "string option"
  listdir :: "string \<Rightarrow> string + string list"
  getmtime :: "string \<Rightarrow> nat"
  rmtree_fails :: "string \<Rightarrow> bool"

text \<open>The record kept for one backup (\<^verbatim>\<open>backup_info\<close>; its key \<^verbatim>\<open>id\<close> is \<open>ident\<close>).\<close>

record backup_info =
  ident :: string
  path :: string
  timestamp :: string
  status :: string

text \<open>The five calls of the pipeline, in its order.\<close>

datatype stage = Backup | MountIso | PreparePartition | Install | ConfigureBootloader

text \<open>
  The fields of the engine and of its managers, and the directories the program itself has
  created on disk (mount points, temporary directories). Three history fields record what
  happened, for the properties that speak about it: every value assigned to
  \<^verbatim>\<open>operation_progress\<close>, every backend call of the pipeline with the success flag it
  returned, and every external command started.
\<close>

record world =
  current_operation :: "string option"
  operation_progress :: int
  mounted_isos :: "(string \<times> string) list"
  temp_directory :: string
  active_backups :: "(string \<times> backup_info) list"
  backup_metadata :: "(string \<times> backup_info) list"
  operation_log :: "string list"
  existing_dirs :: "string list"
  progress_log :: "int list"
  stage_log :: "(stage \<times> bool) list"
  commands_run :: "command list"

definition subprocess_run :: "env \<Rightarrow> command \<Rightarrow> world \<Rightarrow> (string + completed) \<times> world" where
  "subprocess_run env c w = (run env c, w\<lparr>commands_run := commands_run w @ [c]\<rparr>)"

text \<open>\<^verbatim>\<open>os.makedirs(p, exist_ok=True)\<close> once it has not raised.\<close>

definition makedirs :: "string \<Rightarrow> world \<Rightarrow> world" where
  "makedirs p w = w\<lparr>existing_dirs := List.insert p (existing_dirs w)\<rparr>"

text \<open>
  \<^verbatim>\<open>shutil.rmtree(p, ignore_errors=True)\<close> removes \<open>p\<close> and what is below it as far
  as it can: an error of a removal is ignored, the call returns normally, and what could
  not be removed stays. Which directories resist (one still in use as a mount point, one
  held open by another process, one the process may not remove) is given by the
  surroundings, \<open>rmtree_fails\<close>.
\<close>

definition rmtree :: "env \<Rightarrow> string \<Rightarrow> world \<Rightarrow> world" where
  "rmtree env p w =
     w\<lparr>existing_dirs :=
          filter (\<lambda>d. \<not> ((d = p \<or> startswith d (p @ ''/'')) \<and> \<not> rmtree_fails env d))
            (existing_dirs w)\<rparr>"

text \<open>\<^verbatim>\<open>str(n)\<close> for a length, \<^verbatim>\<open>s.endswith(suffix)\<close>, \<^verbatim>\<open>s.split()\<close>.\<close>

fun str_nat :: "nat \<Rightarrow> string" where
  "str_nat n =
     (if n < 10 then [''0123456789'' ! n]
      else str_nat (n div 10) @ [''0123456789'' ! (n mod 10)])"

declare str_nat.simps [simp del]

definition endswith :: "string \<Rightarrow> string \<Rightarrow> bool" where
  "endswith s suffix = startswith (rev s) (rev suffix)"

definition is_space :: "char \<Rightarrow> bool" where
  "is_space c =
     (c \<in> set [CHR '' '', CHR 0x09, CHR 0x0A, CHR 0x0B, CHR 0x0C, CHR 0x0D,
                CHR 0x1C, CHR 0x1D, CHR 0x1E, CHR 0x1F])"

fun split_from :: "string \<Rightarrow> string \<Rightarrow> string list" where
  "split_from [] word = (if word = [] then [] else [word])"
| "split_from (c # cs) word =
     (if is_space c then (if word = [] then split_from cs [] else word # split_from cs [])
      else split_from cs (word @ [c]))"

definition py_split :: "string \<Rightarrow> string list" where
  "py_split s = split_from s []"

definition dq :: string where
  "dq = [CHR 0x22]"

section \<open>IsoManager: the Mount Table\<close>

text \<open>
  \<^verbatim>\<open>mounted_isos\<close> is a dictionary from image path to mount point, kept as an
  association list in insertion order: \<open>AList.update\<close> is the assignment
  \<^verbatim>\<open>d[k] = v\<close>, \<open>AList.delete\<close> is \<^verbatim>\<open>del d[k]\<close>, \<open>map_of\<close> the lookup.
\<close>

definition mount_command :: "platform \<Rightarrow> string \<Rightarrow> string \<Rightarrow> command" where
  "mount_command p iso_path mount_point =
     (case p of
        NT \<Rightarrow> Argv [''powershell'', ''-Command'',
                ''Mount-DiskImage -ImagePath '' @ dq @ iso_path @ dq
                @ '' -PassThru | Get-Volume | Get-Partition | Add-PartitionAccessPath -AccessPath ''
                @ dq @ mount_point @ dq]
      | Posix \<Rightarrow> Argv [''sudo'', ''mount'', ''-o'', ''loop'', iso_path, mount_point])"

definition unmount_command :: "platform \<Rightarrow> string \<Rightarrow> string \<Rightarrow> command" where
  "unmount_command p iso_path mount_point =
     (case p of
        NT \<Rightarrow> Argv [''powershell'', ''-Command'',
                ''Dismount-DiskImage -ImagePath '' @ dq @ iso_path @ dq]
      | Posix \<Rightarrow> Argv [''sudo'', ''umount'', mount_point])"

definition mount_iso :: "env \<Rightarrow> string \<Rightarrow> world \<Rightarrow> string outcome \<times> world" where
  "mount_iso env iso_path w =
     (let mount_point =
            path_join (temp_directory w) (''mount_'' @ str_nat (length (mounted_isos w)))
      in case makedirs_error env of
           Some e \<Rightarrow> (Failed e, w)
         | None \<Rightarrow>
            (let (result, w1) =
                   subprocess_run env (mount_command (os_name env) iso_path mount_point)
                     (makedirs mount_point w)
             in case result of
                  Inl e \<Rightarrow> (Failed e, w1)
                | Inr r \<Rightarrow>
                   if returncode r = 0
                   then (Succeeded mount_point,
                         w1\<lparr>mounted_isos := AList.update iso_path mount_point (mounted_isos w1)\<rparr>)
                   else (Failed (stderr r), w1)))"

definition unmount_iso :: "env \<Rightarrow> string \<Rightarrow> world \<Rightarrow> unit outcome \<times> world" where
  "unmount_iso env iso_path w =
     (case map_of (mounted_isos w) iso_path of
        None \<Rightarrow> (Failed ''ISO not mounted'', w)
      | Some mount_point \<Rightarrow>
         (let (result, w1) =
                subprocess_run env (unmount_command (os_name env) iso_path mount_point) w
          in case result of
               Inl e \<Rightarrow> (Failed e, w1)
             | Inr r \<Rightarrow>
                if returncode r = 0
                then (Succeeded (),
                      rmtree env mount_point
                        (w1\<lparr>mounted_isos := AList.delete iso_path (mounted_isos w1)\<rparr>))
                else (Failed (stderr r), w1)))"

text \<open>\<^verbatim>\<open>cleanup\<close>: one \<^verbatim>\<open>unmount_iso\<close> for each key the table had at the start, then
  the temporary directory is removed if it exists.\<close>

definition cleanup :: "env \<Rightarrow> world \<Rightarrow> world" where
  "cleanup env w =
     (let w1 = foldl (\<lambda>w' iso_path. snd (unmount_iso env iso_path w')) w
                 (map fst (mounted_isos w))
      in if temp_directory w1 \<in> set (existing_dirs w1) then rmtree env (temp_directory w1) w1
         else w1)"

definition possible_scripts :: "string list" where
  "possible_scripts =
     [''setup.exe'', ''install.exe'', ''autorun.exe'', ''install.sh'', ''setup.sh'',
      ''installer'']"

definition find_install_script :: "env \<Rightarrow> string \<Rightarrow> string option" where
  "find_install_script env mount_point =
     find (path_exists env) (map (path_join mount_point) possible_scripts)"

definition install_command :: "platform \<Rightarrow> string \<Rightarrow> string \<Rightarrow> command" where
  "install_command p install_script target_partition =
     (case p of
        NT \<Rightarrow> Argv [''powershell'', ''-Command'',
                ''Start-Process -FilePath '' @ dq @ install_script @ dq
                @ '' -ArgumentList '' @ dq @ ''/s /t:'' @ target_partition @ dq @ '' -Wait'']
      | Posix \<Rightarrow> Argv [''sudo'', ''bash'', install_script, target_partition])"

definition install_from_mounted :: "env \<Rightarrow> string \<Rightarrow> string \<Rightarrow> world \<Rightarrow> unit outcome \<times> world" where
  "install_from_mounted env mount_point target_partition w =
     (case find_install_script env mount_point of
        None \<Rightarrow> (Failed ''No installation script found'', w)
      | Some install_script \<Rightarrow>
         (let (result, w1) =
                subprocess_run env (install_command (os_name env) install_script target_partition) w
          in case result of
               Inl e \<Rightarrow> (Failed e, w1)
             | Inr r \<Rightarrow>
                if returncode r = 0 then (Succeeded (), w1) else (Failed (stderr r), w1)))"

section \<open>Sequences of external commands\<close>

text \<open>
  Every backend method that needs several external commands runs them with the same loop:
  \<^verbatim>\<open>for command in commands: result = subprocess.run(...)\<close>, followed by a test of
  \<^verbatim>\<open>result.returncode\<close> that returns from the method at once. \<open>run_each\<close> is that loop,
  given the test (\<open>refused\<close>, true of an exit status that makes the method return). It
  yields what stopped the loop, if anything did: an exception raised by
  \<^verbatim>\<open>subprocess.run\<close>, or the completed process whose exit status was refused.
\<close>

datatype stop = Raised string | Refused completed

fun run_each :: "env \<Rightarrow> (int \<Rightarrow> bool) \<Rightarrow> command list \<Rightarrow> world \<Rightarrow> stop option \<times> world" where
  "run_each env refused [] w = (None, w)"
| "run_each env refused (c # cs) w =
     (let (result, w1) = subprocess_run env c w
      in case result of
           Inl e \<Rightarrow> (Some (Raised e), w1)
         | Inr r \<Rightarrow>
            if refused (returncode r) then (Some (Refused r), w1)
            else run_each env refused cs w1)"

section \<open>BackupManager\<close>

text \<open>
  \<^verbatim>\<open>os.path.exists\<close> of a directory: one the program has made itself, or one the
  surroundings provide.
\<close>

definition exists_now :: "env \<Rightarrow> world \<Rightarrow> string \<Rightarrow> bool" where
  "exists_now env w p = (p \<in> set (existing_dirs w) \<or> path_exists env p)"

definition generate_backup_id :: "env \<Rightarrow> string" where
  "generate_backup_id env = ''detorrent_backup_'' @ strftime_now env"

text \<open>
  \<^verbatim>\<open>_create_windows_backup\<close> and \<^verbatim>\<open>_create_unix_backup\<close> write one archive and catch
  every exception; what the archive library does is given by the surroundings. The key
  \<^verbatim>\<open>backup_file\<close> of their success value is read by no caller and is left out.
\<close>

definition create_windows_backup :: "env \<Rightarrow> string \<Rightarrow> string \<Rightarrow> unit outcome" where
  "create_windows_backup env backup_path backup_id =
     (case archive_error env of Some e \<Rightarrow> Failed e | None \<Rightarrow> Succeeded ())"

definition create_unix_backup :: "env \<Rightarrow> string \<Rightarrow> string \<Rightarrow> unit outcome" where
  "create_unix_backup env backup_path backup_id =
     (case archive_error env of Some e \<Rightarrow> Failed e | None \<Rightarrow> Succeeded ())"

text \<open>
  \<^verbatim>\<open>create_system_backup\<close>. The dictionary \<^verbatim>\<open>backup_info\<close> is one object, stored
  under the id in \<^verbatim>\<open>active_backups\<close> and, on success, in \<^verbatim>\<open>backup_metadata\<close>; the
  later assignment to its \<^verbatim>\<open>status\<close> is therefore seen through both, and is written
  here as an update of the entries that hold this object. An entry an earlier call left
  in \<^verbatim>\<open>backup_metadata\<close> under the same id is another object and is not touched by the
  failure branch. The success value carries \<^verbatim>\<open>backup_id\<close> and \<^verbatim>\<open>path\<close>.
\<close>

definition create_system_backup ::
  "env \<Rightarrow> string \<Rightarrow> world \<Rightarrow> (string \<times> string) outcome \<times> world" where
  "create_system_backup env backup_path w =
     (if \<not> exists_now env w backup_path \<and> makedirs_error env \<noteq> None
      then (Failed (the (makedirs_error env)), w)
      else
       (let w1 = (if \<not> exists_now env w backup_path then makedirs backup_path w else w);
            backup_id = generate_backup_id env;
            backup_info = \<lparr>ident = backup_id, path = backup_path,
                           timestamp = isoformat_now env, status = ''in_progress''\<rparr>;
            w2 = w1\<lparr>active_backups := AList.update backup_id backup_info (active_backups w1)\<rparr>;
            result = (if os_name env = NT then create_windows_backup env backup_path backup_id
                      else create_unix_backup env backup_path backup_id)
        in case result of
             Succeeded u \<Rightarrow>
               (let completed_info = backup_info\<lparr>status := ''completed''\<rparr>
                in (Succeeded (backup_id, backup_path),
                    w2\<lparr>active_backups :=
                          AList.update backup_id completed_info (active_backups w2),
                        backup_metadata :=
                          AList.update backup_id completed_info (backup_metadata w2)\<rparr>))
           | Failed e \<Rightarrow>
               (Failed e,
                w2\<lparr>active_backups :=
                      AList.update backup_id (backup_info\<lparr>status := ''failed''\<rparr>)
                        (active_backups w2)\<rparr>)))"


text \<open>The fixed restore sequences, built from the extraction directory; \<open>bs\<close> is the
  backslash of the Windows paths.\<close>

definition bs :: string where
  "bs = [CHR 0x5C]"

definition windows_restore_commands :: "string \<Rightarrow> command list" where
  "windows_restore_commands temp_extract_dir =
     [Shell (''robocopy '' @ dq @ temp_extract_dir @ dq @ '' '' @ dq
             @ ''C:'' @ bs @ ''Windows'' @ bs @ ''System32'' @ bs @ ''config'' @ dq @ '' /E /Y''),
      Shell (''robocopy '' @ dq @ temp_extract_dir @ dq @ '' '' @ dq
             @ ''C:'' @ bs @ ''Windows'' @ bs @ ''Boot'' @ dq @ '' /E /Y''),
      Shell (''robocopy '' @ dq @ temp_extract_dir @ dq @ '' '' @ dq
             @ ''C:'' @ bs @ ''Users'' @ dq @ '' /E /Y'')]"

definition unix_restore_commands :: "string \<Rightarrow> command list" where
  "unix_restore_commands temp_extract_dir =
     map (\<lambda>command. Argv (py_split command))
       [''sudo cp -r '' @ dq @ temp_extract_dir @ ''/etc'' @ dq @ '' '' @ dq @ ''/etc'' @ dq,
        ''sudo cp -r '' @ dq @ temp_extract_dir @ ''/boot'' @ dq @ '' '' @ dq @ ''/boot'' @ dq,
        ''sudo cp -r '' @ dq @ temp_extract_dir @ ''/home'' @ dq @ '' '' @ dq @ ''/home'' @ dq]"

text \<open>
  \<^verbatim>\<open>_restore_windows_backup\<close> and \<^verbatim>\<open>_restore_unix_backup\<close>. \<^verbatim>\<open>tempfile.mkdtemp\<close>
  creates the directory it names. The call of \<^verbatim>\<open>shutil.rmtree\<close> stands after the loop,
  so it is reached only when the loop has run to its end.
\<close>

definition restore_windows_backup :: "env \<Rightarrow> string \<Rightarrow> world \<Rightarrow> string outcome \<times> world" where
  "restore_windows_backup env backup_file w =
     (if \<not> endswith backup_file ''.zip'' then (Failed ''Invalid backup file format'', w)
      else case mkdtemp env ''detorrent_restore_'' of
             Inl e \<Rightarrow> (Failed e, w)
           | Inr temp_extract_dir \<Rightarrow>
              (let w1 = makedirs temp_extract_dir w
               in case extract_error env of
                    Some e \<Rightarrow> (Failed e, w1)
                  | None \<Rightarrow>
                     (let (stopped, w2) =
                            run_each env (\<lambda>rc. rc \<notin> set [0, 1])
                              (windows_restore_commands temp_extract_dir) w1
                      in case stopped of
                           Some (Raised e) \<Rightarrow> (Failed e, w2)
                         | Some (Refused r) \<Rightarrow>
                             (Failed (''Restore command failed: '' @ stderr r), w2)
                         | None \<Rightarrow>
                             (Succeeded ''Windows backup restored successfully'',
                              rmtree env temp_extract_dir w2))))"

definition restore_unix_backup :: "env \<Rightarrow> string \<Rightarrow> world \<Rightarrow> string outcome \<times> world" where
  "restore_unix_backup env backup_file w =
     (if \<not> endswith backup_file ''.tar.gz'' then (Failed ''Invalid backup file format'', w)
      else case mkdtemp env ''detorrent_restore_'' of
             Inl e \<Rightarrow> (Failed e, w)
           | Inr temp_extract_dir \<Rightarrow>
              (let w1 = makedirs temp_extract_dir w
               in case extract_error env of
                    Some e \<Rightarrow> (Failed e, w1)
                  | None \<Rightarrow>
                     (let (stopped, w2) =
                            run_each env (\<lambda>rc. rc \<noteq> 0)
                              (unix_restore_commands temp_extract_dir) w1
                      in case stopped of
                           Some (Raised e) \<Rightarrow> (Failed e, w2)
                         | Some (Refused r) \<Rightarrow>
                             (Failed (''Restore command failed: '' @ stderr r), w2)
                         | None \<Rightarrow>
                             (Succeeded ''Unix backup restored successfully'',
                              rmtree env temp_extract_dir w2))))"

text \<open>
  \<^verbatim>\<open>_find_backup_files\<close>, and \<^verbatim>\<open>max(backup_files, key=os.path.getmtime)\<close>, which
  keeps the first of several files with the greatest time.
\<close>

definition find_backup_files :: "string list \<Rightarrow> string \<Rightarrow> string list" where
  "find_backup_files names backup_path =
     map (path_join backup_path)
       (filter (\<lambda>file. endswith file ''.zip'' \<or> endswith file ''.tar.gz'') names)"

fun max_by :: "('a \<Rightarrow> nat) \<Rightarrow> 'a \<Rightarrow> 'a list \<Rightarrow> 'a" where
  "max_by key best [] = best"
| "max_by key best (x # xs) = max_by key (if key best < key x then x else best) xs"

definition restore_system_backup :: "env \<Rightarrow> string \<Rightarrow> world \<Rightarrow> string outcome \<times> world" where
  "restore_system_backup env backup_path w =
     (if \<not> exists_now env w backup_path then (Failed ''Backup path does not exist'', w)
      else case listdir env backup_path of
             Inl e \<Rightarrow> (Failed e, w)
           | Inr names \<Rightarrow>
              (case find_backup_files names backup_path of
                 [] \<Rightarrow> (Failed ''No backup files found'', w)
               | first # others \<Rightarrow>
                  (let latest_backup = max_by (getmtime env) first others
                   in if os_name env = NT then restore_windows_backup env latest_backup w
                      else restore_unix_backup env latest_backup w)))"



section \<open>PartitionManager\<close>

text \<open>A command given to PowerShell, as the Windows methods start it.\<close>

definition powershell :: "string \<Rightarrow> command" where
  "powershell command = Argv [''powershell'', ''-Command'', command]"

definition prepare_windows_commands :: "string \<Rightarrow> command list" where
  "prepare_windows_commands partition_identifier =
     map powershell
       [''Get-Partition -PartitionNumber '' @ partition_identifier
          @ '' | Set-Partition -IsActive $true'',
        ''Format-Volume -DriveLetter '' @ partition_identifier
          @ '' -FileSystem NTFS -Confirm:$false'']"

definition prepare_unix_commands :: "string \<Rightarrow> command list" where
  "prepare_unix_commands partition_identifier =
     map (\<lambda>command. Argv (py_split command))
       [''sudo mkfs.ext4 -F '' @ partition_identifier,
        ''sudo mkdir -p /mnt/detorrent_install'',
        ''sudo mount '' @ partition_identifier @ '' /mnt/detorrent_install'']"

definition create_unix_commands :: "string \<Rightarrow> string \<Rightarrow> command list" where
  "create_unix_commands disk_identifier partition_type =
     map (\<lambda>command. Argv (py_split command))
       [''sudo parted '' @ disk_identifier @ '' mkpart '' @ partition_type @ '' 0% 100%'',
        ''sudo mkfs.ext4 -F '' @ disk_identifier @ ''1'']"

definition resize_unix_commands :: "string \<Rightarrow> string \<Rightarrow> command list" where
  "resize_unix_commands partition_identifier new_size =
     map (\<lambda>command. Argv (py_split command))
       [''sudo parted '' @ partition_identifier @ '' resizepart 1 '' @ new_size,
        ''sudo resize2fs '' @ partition_identifier @ ''1'']"

text \<open>
  The four methods of the PartitionManager that run more than one command. Each returns
  \<^verbatim>\<open>Command failed:\<close> with the error output at the first exit status other than 0,
  and appends one line to \<^verbatim>\<open>operation_log\<close> when the loop has run to its end.
\<close>

definition prepare_windows_partition :: "env \<Rightarrow> string \<Rightarrow> world \<Rightarrow> string outcome \<times> world" where
  "prepare_windows_partition env partition_identifier w =
     (let (stopped, w1) =
            run_each env (\<lambda>rc. rc \<noteq> 0) (prepare_windows_commands partition_identifier) w
      in case stopped of
           Some (Raised e) \<Rightarrow> (Failed e, w1)
         | Some (Refused r) \<Rightarrow> (Failed (''Command failed: '' @ stderr r), w1)
         | None \<Rightarrow>
             (Succeeded (''Partition '' @ partition_identifier @ '' prepared''),
              w1\<lparr>operation_log :=
                    operation_log w1 @ [''Prepared Windows partition '' @ partition_identifier]\<rparr>))"

definition prepare_unix_partition :: "env \<Rightarrow> string \<Rightarrow> world \<Rightarrow> string outcome \<times> world" where
  "prepare_unix_partition env partition_identifier w =
     (let (stopped, w1) =
            run_each env (\<lambda>rc. rc \<noteq> 0) (prepare_unix_commands partition_identifier) w
      in case stopped of
           Some (Raised e) \<Rightarrow> (Failed e, w1)
         | Some (Refused r) \<Rightarrow> (Failed (''Command failed: '' @ stderr r), w1)
         | None \<Rightarrow>
             (Succeeded (''Partition '' @ partition_identifier @ '' prepared''),
              w1\<lparr>operation_log :=
                    operation_log w1 @ [''Prepared Unix partition '' @ partition_identifier]\<rparr>))"

definition prepare_partition :: "env \<Rightarrow> string \<Rightarrow> world \<Rightarrow> string outcome \<times> world" where
  "prepare_partition env partition_identifier w =
     (if os_name env = NT then prepare_windows_partition env partition_identifier w
      else prepare_unix_partition env partition_identifier w)"

definition create_unix_partition ::
  "env \<Rightarrow> string \<Rightarrow> string \<Rightarrow> string \<Rightarrow> world \<Rightarrow> string outcome \<times> world" where
  "create_unix_partition env disk_identifier size_arg partition_type w =
     (let (stopped, w1) =
            run_each env (\<lambda>rc. rc \<noteq> 0) (create_unix_commands disk_identifier partition_type) w
      in case stopped of
           Some (Raised e) \<Rightarrow> (Failed e, w1)
         | Some (Refused r) \<Rightarrow> (Failed (''Command failed: '' @ stderr r), w1)
         | None \<Rightarrow>
             (Succeeded ''Partition created successfully'',
              w1\<lparr>operation_log :=
                    operation_log w1 @ [''Created Unix partition on disk '' @ disk_identifier]\<rparr>))"

definition resize_unix_partition ::
  "env \<Rightarrow> string \<Rightarrow> string \<Rightarrow> world \<Rightarrow> string outcome \<times> world" where
  "resize_unix_partition env partition_identifier new_size w =
     (let (stopped, w1) =
            run_each env (\<lambda>rc. rc \<noteq> 0) (resize_unix_commands partition_identifier new_size) w
      in case stopped of
           Some (Raised e) \<Rightarrow> (Failed e, w1)
         | Some (Refused r) \<Rightarrow> (Failed (''Command failed: '' @ stderr r), w1)
         | None \<Rightarrow>
             (Succeeded ''Partition resized successfully'',
              w1\<lparr>operation_log :=
                    operation_log w1 @ [''Resized Unix partition '' @ partition_identifier]\<rparr>))"

section \<open>BootloaderManager\<close>

definition bcd_commands :: "command list" where
  "bcd_commands =
     map powershell
       [''bcdedit /create /d '' @ dq @ ''Detorrent OS'' @ dq @ '' /application bootsector'',
        ''bcdedit /set {bootmgr} timeout 10'',
        ''bcdedit /set {bootmgr} displayorder {default}'']"

definition configure_windows_bootloader :: "env \<Rightarrow> string \<Rightarrow> world \<Rightarrow> string outcome \<times> world" where
  "configure_windows_bootloader env target_partition w =
     (let (stopped, w1) = run_each env (\<lambda>rc. rc \<noteq> 0) bcd_commands w
      in case stopped of
           Some (Raised e) \<Rightarrow> (Failed e, w1)
         | Some (Refused r) \<Rightarrow> (Failed (''BCD command failed: '' @ stderr r), w1)
         | None \<Rightarrow> (Succeeded ''Windows bootloader configured'', w1))"

text \<open>
  \<^verbatim>\<open>_configure_grub_bootloader\<close> writes \<^verbatim>\<open>/etc/grub.d/40_detorrent\<close> and makes it
  executable (an exception of either is \<open>grub_write_error\<close>), then runs one command.
\<close>

definition configure_grub_bootloader :: "env \<Rightarrow> string \<Rightarrow> world \<Rightarrow> string outcome \<times> world" where
  "configure_grub_bootloader env target_partition w =
     (case grub_write_error env of
        Some e \<Rightarrow> (Failed e, w)
      | None \<Rightarrow>
         (let (result, w1) = subprocess_run env (Argv [''sudo'', ''update-grub'']) w
          in case result of
               Inl e \<Rightarrow> (Failed e, w1)
             | Inr r \<Rightarrow>
                if returncode r = 0 then (Succeeded ''GRUB bootloader configured'', w1)
                else (Failed (stderr r), w1)))"

definition configure_bootloader :: "env \<Rightarrow> string \<Rightarrow> world \<Rightarrow> string outcome \<times> world" where
  "configure_bootloader env target_partition w =
     (if os_name env = NT then configure_windows_bootloader env target_partition w
      else configure_grub_bootloader env target_partition w)"

section \<open>Accepted exit statuses\<close>

text \<open>
  Every command of a sequence completes on these surroundings with an exit status from
  the list \<open>accepted\<close>.
\<close>

definition all_accepted :: "env \<Rightarrow> int list \<Rightarrow> command list \<Rightarrow> bool" where
  "all_accepted env accepted commands =
     list_all (\<lambda>c. case run env c of Inl e \<Rightarrow> False | Inr r \<Rightarrow> returncode r \<in> set accepted)
       commands"

section \<open>NexusEngine: the migration pipeline\<close>

text \<open>
  An assignment to \<^verbatim>\<open>operation_progress\<close>, recorded in the history of progress values;
  and the record of a backend call with the success flag of its result.
\<close>

definition set_progress :: "int \<Rightarrow> world \<Rightarrow> world" where
  "set_progress n w = w\<lparr>operation_progress := n, progress_log := progress_log w @ [n]\<rparr>"

definition log_stage :: "stage \<Rightarrow> bool \<Rightarrow> world \<Rightarrow> world" where
  "log_stage s ok w = w\<lparr>stage_log := stage_log w @ [(s, ok)]\<rparr>"

text \<open>\<^verbatim>\<open>create_backup\<close> hands the call on to the BackupManager.\<close>

definition create_backup ::
  "env \<Rightarrow> string \<Rightarrow> world \<Rightarrow> (string \<times> string) outcome \<times> world" where
  "create_backup env backup_path w = create_system_backup env backup_path w"

text \<open>
  The \<^verbatim>\<open>try\<close> block of \<^verbatim>\<open>execute_os_switch\<close> is one sequence of statements
  with a \<^verbatim>\<open>return\<close> after each backend call. It is written here from its end: the part
  from \<^verbatim>\<open>self.operation_progress = 80\<close> on, the part from
  \<^verbatim>\<open>self.operation_progress = 60\<close> on, which ends in the former, and so on up to the
  whole block. Each backend method catches its own exceptions, so the only call that can
  raise in the block is \<^verbatim>\<open>tempfile.mkdtemp()\<close>, whose exception text is returned by the
  \<^verbatim>\<open>except\<close> clause. The block contains no call of \<^verbatim>\<open>unmount_iso\<close> or
  \<^verbatim>\<open>cleanup\<close>.
\<close>

definition from_bootloader :: "env \<Rightarrow> string \<Rightarrow> world \<Rightarrow> string outcome \<times> world" where
  "from_bootloader env target_partition w =
     (let w1 = set_progress 80 w;
          (bootloader_result, w2) = configure_bootloader env target_partition w1;
          w3 = log_stage ConfigureBootloader (success bootloader_result) w2
      in if \<not> success bootloader_result
         then (Failed ''Bootloader configuration failed'', w3)
         else (Succeeded ''OS switch completed successfully'', set_progress 100 w3))"

definition from_install :: "env \<Rightarrow> string \<Rightarrow> string \<Rightarrow> world \<Rightarrow> string outcome \<times> world" where
  "from_install env mount_point target_partition w =
     (let w1 = set_progress 60 w;
          (install_result, w2) = install_from_mounted env mount_point target_partition w1;
          w3 = log_stage Install (success install_result) w2
      in if \<not> success install_result then (Failed ''Installation failed'', w3)
         else from_bootloader env target_partition w3)"

definition from_partition :: "env \<Rightarrow> string \<Rightarrow> string \<Rightarrow> world \<Rightarrow> string outcome \<times> world" where
  "from_partition env mount_point target_partition w =
     (let w1 = set_progress 40 w;
          (partition_result, w2) = prepare_partition env target_partition w1;
          w3 = log_stage PreparePartition (success partition_result) w2
      in if \<not> success partition_result then (Failed ''Partition preparation failed'', w3)
         else from_install env mount_point target_partition w3)"

definition from_mount :: "env \<Rightarrow> string \<Rightarrow> string \<Rightarrow> world \<Rightarrow> string outcome \<times> world" where
  "from_mount env iso_path target_partition w =
     (let w1 = set_progress 20 w;
          (mount_result, w2) = mount_iso env iso_path w1;
          w3 = log_stage MountIso (success mount_result) w2
      in case mount_result of
           Failed e \<Rightarrow> (Failed ''ISO mount failed'', w3)
         | Succeeded mount_point \<Rightarrow> from_partition env mount_point target_partition w3)"

definition os_switch_try ::
  "env \<Rightarrow> string \<Rightarrow> string \<Rightarrow> bool \<Rightarrow> world \<Rightarrow> string outcome \<times> world" where
  "os_switch_try env iso_path target_partition preserve_data w =
     (let w1 = set_progress 0 (w\<lparr>current_operation := Some ''os_switch''\<rparr>)
      in if preserve_data then
           (case mkdtemp env ''tmp'' of
              Inl e \<Rightarrow> (Failed e, w1)
            | Inr backup_path \<Rightarrow>
               (let (backup_result, w2) =
                      create_backup env backup_path (makedirs backup_path w1);
                    w3 = log_stage Backup (success backup_result) w2
                in if \<not> success backup_result then (Failed ''Backup failed'', w3)
                   else from_mount env iso_path target_partition w3))
         else from_mount env iso_path target_partition w1)"

text \<open>\<^verbatim>\<open>execute_os_switch\<close>: the \<^verbatim>\<open>try\<close> block, then the \<^verbatim>\<open>finally\<close> clause.\<close>

definition execute_os_switch ::
  "env \<Rightarrow> string \<Rightarrow> string \<Rightarrow> bool \<Rightarrow> world \<Rightarrow> string outcome \<times> world" where
  "execute_os_switch env iso_path target_partition preserve_data w =
     (let (result, w1) = os_switch_try env iso_path target_partition preserve_data w
      in (result, set_progress 0 (w1\<lparr>current_operation := None\<rparr>)))"

text \<open>\<^verbatim>\<open>get_operation_status\<close>: the pair of \<^verbatim>\<open>current_operation\<close> and \<^verbatim>\<open>progress\<close>.\<close>

definition get_operation_status :: "world \<Rightarrow> string option \<times> int" where
  "get_operation_status w = (current_operation w, operation_progress w)"

text \<open>
  The stages of one run in the order of the pipeline, the message returned when a stage
  fails, and what one call has added to the two histories.
\<close>

definition pipeline :: "bool \<Rightarrow> stage list" where
  "pipeline preserve_data =
     (if preserve_data then [Backup] else [])
     @ [MountIso, PreparePartition, Install, ConfigureBootloader]"

fun failure_template :: "stage \<Rightarrow> string" where
  "failure_template Backup = ''Backup failed''"
| "failure_template MountIso = ''ISO mount failed''"
| "failure_template PreparePartition = ''Partition preparation failed''"
| "failure_template Install = ''Installation failed''"
| "failure_template ConfigureBootloader = ''Bootloader configuration failed''"

definition run_stages :: "world \<Rightarrow> world \<Rightarrow> (stage \<times> bool) list" where
  "run_stages w w' = drop (length (stage_log w)) (stage_log w')"

definition run_progress :: "world \<Rightarrow> world \<Rightarrow> int list" where
  "run_progress w w' = drop (length (progress_log w)) (progress_log w')"

text \<open>
  Two properties of what a part of the pipeline adds to the histories. The stages run
  are an initial part of the stages \<open>expected\<close>, and a stage that failed is the last one
  run and determines the result. The progress values assigned are a non-empty initial
  part of the values \<open>expected\<close>, all of them exactly when the result is a success.
\<close>

definition traced :: "stage list \<Rightarrow> string outcome \<Rightarrow> (stage \<times> bool) list \<Rightarrow> bool" where
  "traced expected result tr =
     (map fst tr = take (length tr) expected
      \<and> (\<forall>s. (s, False) \<in> set tr \<longrightarrow>
             result = Failed (failure_template s) \<and> last tr = (s, False)))"

definition progressed :: "int list \<Rightarrow> string outcome \<Rightarrow> int list \<Rightarrow> bool" where
  "progressed expected result vals =
     (\<exists>k. 1 \<le> k \<and> k \<le> length expected \<and> vals = take k expected
          \<and> (success result \<longleftrightarrow> k = length expected))"

section \<open>The initial state and sample surroundings\<close>

text \<open>
  The state after the constructors have run (\<^verbatim>\<open>NexusEngine.__init__\<close> and those of the
  managers): nothing mounted, no backup recorded, no operation in progress; the only
  directory is the temporary directory \<^verbatim>\<open>IsoManager.__init__\<close> has made.
\<close>

definition initial_world :: "string \<Rightarrow> world" where
  "initial_world tmp =
     \<lparr>current_operation = None, operation_progress = 0, mounted_isos = [],
      temp_directory = tmp, active_backups = [], backup_metadata = [], operation_log = [],
      existing_dirs = [tmp], progress_log = [], stage_log = [], commands_run = []\<rparr>"

text \<open>
  A POSIX host on which every external command exits with status 0, every path asked for
  exists, no library call raises and every directory can be removed; and the same host with chosen commands failing with
  exit status \<open>rc\<close>.
\<close>

definition calm_env :: env where
  "calm_env =
     \<lparr>os_name = Posix,
      run = (\<lambda>c. Inr \<lparr>returncode = 0, stderr = []\<rparr>),
      path_exists = (\<lambda>p. True),
      mkdtemp = (\<lambda>prefix. Inr (''/tmp/'' @ prefix @ ''k3x9'')),
      makedirs_error = None,
      strftime_now = ''20240101_120000'',
      isoformat_now = ''2024-01-01T12:00:00'',
      archive_error = None,
      extract_error = None,
      grub_write_error = None,
      listdir = (\<lambda>p. Inr []),
      getmtime = (\<lambda>p. 0),
      rmtree_fails = (\<lambda>p. False)\<rparr>"

definition failing_env :: "(command \<Rightarrow> bool) \<Rightarrow> int \<Rightarrow> env" where
  "failing_env bad rc =
     calm_env\<lparr>run := (\<lambda>c. if bad c then Inr \<lparr>returncode = rc, stderr = ''failed''\<rparr>
                          else Inr \<lparr>returncode = 0, stderr = []\<rparr>)\<rparr>"


text \<open>
  That host with one archive in the backup directory, where the first copy command of the
  restore exits with status \<open>rc\<close>.
\<close>

definition restore_env :: "int \<Rightarrow> env" where
  "restore_env rc =
     calm_env
       \<lparr>run := (\<lambda>c. if c = Argv [''sudo'', ''cp'', ''-r'',
                                  dq @ ''/tmp/detorrent_restore_k3x9/etc'' @ dq,
                                  dq @ ''/etc'' @ dq]
                      then Inr \<lparr>returncode = rc, stderr = ''cp: cannot stat''\<rparr>
                      else Inr \<lparr>returncode = 0, stderr = []\<rparr>),
        listdir := (\<lambda>p. Inr [''detorrent_backup_20240101_120000.tar.gz''])\<rparr>"

text \<open>
  The state after three calls on that host: two images are mounted, then the first is
  unmounted. The table then has one entry, so the next mount point is named
  \<^verbatim>\<open>mount_1\<close> again, the directory on which the second image is still mounted. On
  \<open>busy_env\<close> that directory cannot be removed.
\<close>

definition one_left_world :: world where
  "one_left_world =
     snd (unmount_iso calm_env ''/isos/a.iso''
       (snd (mount_iso calm_env ''/isos/b.iso''
         (snd (mount_iso calm_env ''/isos/a.iso'' (initial_world ''/tmp/iso''))))))"

definition busy_env :: env where
  "busy_env = calm_env\<lparr>rmtree_fails := (\<lambda>d. d = ''/tmp/iso/mount_1'')\<rparr>"

text \<open>
  A Windows host with a backup archive, on which the copy tool exits with status \<open>rc\<close>
  and every other command with status 0.
\<close>

definition robocopy_env :: "int \<Rightarrow> env" where
  "robocopy_env rc =
     calm_env
       \<lparr>os_name := NT,
        run := (\<lambda>c. case c of
                       Shell s \<Rightarrow> Inr \<lparr>returncode = (if startswith s ''robocopy '' then rc else 0),
                                     stderr = []\<rparr>
                     | Argv a \<Rightarrow> Inr \<lparr>returncode = 0, stderr = []\<rparr>),
        listdir := (\<lambda>p. Inr [''detorrent_backup_20240101_120000.zip''])\<rparr>"

text \<open>
  That host with every command exiting with status 1, and with every command but the
  mounting of \<^verbatim>\<open>/isos/linux.iso\<close> exiting with status 1.
\<close>

definition all_fail_env :: env where
  "all_fail_env = failing_env (\<lambda>c. True) 1"

definition only_mount_env :: env where
  "only_mount_env =
     failing_env
       (\<lambda>c. c \<noteq> Argv [''sudo'', ''mount'', ''-o'', ''loop'', ''/isos/linux.iso'',
                         ''/tmp/iso/mount_0'']) 1"

section \<open>Image validation: the three outcomes\<close>

lemma verify_iso_structure_readable:
  assumes "fs p = Some f" and "open_error f = None" and "2048 \<le> length (data f)"
  shows "verify_iso_structure fs p \<longleftrightarrow>
           take 5 (data f) = CD001 \<or> take 4 (data f) = [0, 0, 0, 0]"
  using assms by (simp add: verify_iso_structure_def Let_def min_def)

lemma validate_iso_file_unreadable:
  assumes "fs p = Some f" and "getsize_error f = None" and "open_error f = Some e"
    and "1024 * 1024 \<le> length (data f)"
  shows "validate_iso_file fs p = Invalid ''Invalid ISO structure''"
  using assms by (simp add: validate_iso_file_def verify_iso_structure_def Let_def)

text \<open>
  C3. For an input file (the path exists, and reading its size and opening it do not
  raise): below 1 MiB the result is invalid with the "too small" diagnostic; from 1 MiB
  on, with neither marker at the start of the first block (the five bytes CD001, or four
  zero bytes) the result is invalid with the "invalid structure" diagnostic; and the
  result is valid exactly when the size is at least 1 MiB and one of the two markers
  holds.
\<close>

theorem validate_iso_file_outcomes:
  assumes "fs p = Some f" and "getsize_error f = None" and "open_error f = None"
  shows "(length (data f) < 1024 * 1024 \<longrightarrow>
            validate_iso_file fs p = Invalid ''File too small to be valid ISO'')
       \<and> (1024 * 1024 \<le> length (data f)
            \<and> take 5 (take 2048 (data f)) \<noteq> CD001
            \<and> take 4 (take 2048 (data f)) \<noteq> [0, 0, 0, 0] \<longrightarrow>
            validate_iso_file fs p = Invalid ''Invalid ISO structure'')
       \<and> ((\<exists>n. validate_iso_file fs p = Valid n) \<longleftrightarrow>
            1024 * 1024 \<le> length (data f)
            \<and> (take 5 (take 2048 (data f)) = CD001
               \<or> take 4 (take 2048 (data f)) = [0, 0, 0, 0]))"
proof (cases "length (data f) < 1024 * 1024")
  case True
  with assms show ?thesis by (simp add: validate_iso_file_def)
next
  case False
  then have big: "2048 \<le> length (data f)" by simp
  have v: "verify_iso_structure fs p \<longleftrightarrow>
             take 5 (data f) = CD001 \<or> take 4 (data f) = [0, 0, 0, 0]"
    using assms(1,3) big by (rule verify_iso_structure_readable)
  from False assms v show ?thesis
    by (auto simp add: validate_iso_file_def Let_def)
qed

theorem validate_iso_file_outcomes_witness:
  "[''disk.iso'' \<mapsto> \<lparr>data = CD001 @ replicate 1048576 0, getsize_error = None,
                      open_error = None\<rparr>] ''disk.iso''
     = Some \<lparr>data = CD001 @ replicate 1048576 0, getsize_error = None, open_error = None\<rparr>
   \<and> (\<exists>n. validate_iso_file
       [''disk.iso'' \<mapsto> \<lparr>data = CD001 @ replicate 1048576 0, getsize_error = None,
                          open_error = None\<rparr>] ''disk.iso'' = Valid n)"
  using validate_iso_file_outcomes
    [of "[''disk.iso'' \<mapsto> \<lparr>data = CD001 @ replicate 1048576 0, getsize_error = None,
                             open_error = None\<rparr>]"
        "''disk.iso''"
        "\<lparr>data = CD001 @ replicate 1048576 0, getsize_error = None, open_error = None\<rparr>"]
  by (simp add: CD001_def)

section \<open>Classification: the first family of the list wins\<close>

lemma startswith_iff: "startswith s p \<longleftrightarrow> (\<exists>b. s = p @ b)"
  by (induction p arbitrary: s) (auto split: list.splits)

lemma contains_iff: "contains s p \<longleftrightarrow> (\<exists>a b. s = a @ p @ b)"
proof (induction s)
  case Nil
  then show ?case by auto
next
  case (Cons c cs)
  show ?case
  proof
    assume "contains (c # cs) p"
    then consider "startswith (c # cs) p" | "contains cs p" by auto
    then show "\<exists>a b. c # cs = a @ p @ b"
    proof cases
      case 1
      then obtain b where "c # cs = p @ b" by (auto simp: startswith_iff)
      then have "c # cs = [] @ p @ b" by simp
      then show ?thesis by blast
    next
      case 2
      then obtain a b where "cs = a @ p @ b" using Cons.IH by auto
      then have "c # cs = (c # a) @ p @ b" by simp
      then show ?thesis by blast
    qed
  next
    assume "\<exists>a b. c # cs = a @ p @ b"
    then obtain a b where ab: "c # cs = a @ p @ b" by blast
    show "contains (c # cs) p"
    proof (cases a)
      case Nil
      with ab have "startswith (c # cs) p" by (auto simp: startswith_iff)
      then show ?thesis by simp
    next
      case (Cons x xs)
      with ab have "cs = xs @ p @ b" by simp
      then have "contains cs p" using Cons.IH by blast
      then show ?thesis by simp
    qed
  qed
qed

lemma installer_loop_no_type:
  "m ''type'' = None \<Longrightarrow>
   foldl (\<lambda>version_info (root, dirs, fs).
            case find (\<lambda>file. lower file = ''setup.exe'') fs of
              None \<Rightarrow> version_info
            | Some file \<Rightarrow> version_info(''installer'' \<mapsto> path_join root file)) m xs ''type''
     = None"
  by (induction xs arbitrary: m) (auto split: option.splits)

lemma extract_version_info_no_type: "extract_version_info t mount_point os_type ''type'' = None"
proof -
  have w: "extract_windows_version t mount_point ''type'' = None"
    unfolding extract_windows_version_def by (rule installer_loop_no_type) simp
  have l: "extract_linux_version t mount_point ''type'' = None"
    by (simp add: extract_linux_version_def split: option.splits fs_node.splits)
  have m: "extract_macos_version t mount_point ''type'' = None"
    by (simp add: extract_macos_version_def)
  show ?thesis by (simp add: extract_version_info_def w l m)
qed

lemma analyze_loop_type:
  "analyze_loop t mount_point sigs info ''type'' =
     (case find (\<lambda>(os_type, sig). matches_signatures t mount_point sig) sigs of
        Some (os_type, sig) \<Rightarrow> Some os_type
      | None \<Rightarrow> info ''type'')"
  by (induction sigs) (auto simp: map_add_def extract_version_info_no_type)

text \<open>
  C5. The classification is a function of the mounted tree alone (the signature table is
  fixed and nothing else is read), so two runs on one tree agree; and the family it
  returns is the first of windows, linux, macos, in this order, whose signatures the tree
  matches, whatever later families match as well.
\<close>

theorem analyze_mounted_iso_priority:
  "map fst os_signatures = [''windows'', ''linux'', ''macos'']
   \<and> analyze_mounted_iso t mount_point ''type'' =
       (if matches_signatures t mount_point windows_signature then Some ''windows''
        else if matches_signatures t mount_point linux_signature then Some ''linux''
        else if matches_signatures t mount_point macos_signature then Some ''macos''
        else Some ''Unknown'')"
  unfolding analyze_mounted_iso_def analyze_loop_type
  by (simp add: os_signatures_def)

theorem analyze_mounted_iso_priority_witness:
  "matches_signatures [File ''vmlinuz'' [], File ''bootmgr'' [], Dir ''System'' []] ''/mnt/iso''
      windows_signature
   \<and> matches_signatures [File ''vmlinuz'' [], File ''bootmgr'' [], Dir ''System'' []] ''/mnt/iso''
      linux_signature
   \<and> matches_signatures [File ''vmlinuz'' [], File ''bootmgr'' [], Dir ''System'' []] ''/mnt/iso''
      macos_signature
   \<and> analyze_mounted_iso [File ''vmlinuz'' [], File ''bootmgr'' [], Dir ''System'' []] ''/mnt/iso''
        ''type'' = Some ''windows''"
proof -
  let ?t = "[File ''vmlinuz'' [], File ''bootmgr'' [], Dir ''System'' []]"
  have w: "matches_signatures ?t ''/mnt/iso'' windows_signature" by code_simp
  have l: "matches_signatures ?t ''/mnt/iso'' linux_signature" by code_simp
  have m: "matches_signatures ?t ''/mnt/iso'' macos_signature" by code_simp
  from w l m analyze_mounted_iso_priority [of ?t "''/mnt/iso''"] show ?thesis by simp
qed

section \<open>The marker-file rule is a substring test\<close>

lemma search_in_directory_plain:
  "search_in_directory t directory pattern False \<longleftrightarrow>
     (\<exists>file \<in> set (tree_file_names t directory). contains (lower file) (lower pattern))"
  unfolding search_in_directory_def tree_file_names_def list_ex_iff
  by (simp add: split_def)

text \<open>
  C6, as the claim states it, fails: a tree whose only file is \<^verbatim>\<open>notbootmgr.bak\<close> has
  no file named as a marker of the windows family, and the marker-file rule accepts it
  (and the image is classified as windows).
\<close>

theorem marker_file_rule_exact_counterexample:
  "marker_file_rule [File ''notbootmgr.bak'' []] ''/mnt/iso'' windows_signature
   \<and> set (tree_file_names [File ''notbootmgr.bak'' []] ''/mnt/iso'')
        \<inter> set (files windows_signature) = {}
   \<and> \<not> pattern_rule [File ''notbootmgr.bak'' []] ''/mnt/iso'' windows_signature
   \<and> \<not> marker_directory_rule [File ''notbootmgr.bak'' []] ''/mnt/iso'' windows_signature
   \<and> analyze_mounted_iso [File ''notbootmgr.bak'' []] ''/mnt/iso'' ''type'' = Some ''windows''"
proof -
  let ?t = "[File ''notbootmgr.bak'' []]"
  have a: "marker_file_rule ?t ''/mnt/iso'' windows_signature" by code_simp
  have b: "set (tree_file_names ?t ''/mnt/iso'') \<inter> set (files windows_signature) = {}"
    by (simp add: tree_file_names_def walk_def windows_signature_def)
  have c: "\<not> pattern_rule ?t ''/mnt/iso'' windows_signature" by code_simp
  have d: "\<not> marker_directory_rule ?t ''/mnt/iso'' windows_signature" by code_simp
  have e: "analyze_mounted_iso ?t ''/mnt/iso'' ''type'' = Some ''windows''" by code_simp
  from a b c d e show ?thesis by simp
qed

text \<open>
  C6, amended. The marker-file rule accepts a family exactly when some file of the tree
  has a name in which one of the family's marker names occurs as a contiguous block,
  letter case ignored; a name equal to a marker is one such case, a name that merely
  contains it is another.
\<close>

theorem marker_file_rule_substring:
  "marker_file_rule t mount_point sig \<longleftrightarrow>
     (\<exists>file \<in> set (tree_file_names t mount_point). \<exists>marker \<in> set (files sig).
        \<exists>a b. lower file = a @ lower marker @ b)"
  by (auto simp: marker_file_rule_def list_ex_iff search_in_directory_plain contains_iff)

theorem marker_file_rule_substring_witness:
  "(\<exists>file \<in> set (tree_file_names [Dir ''EFI'' [File ''NotBootMgr.bak'' []]] ''/mnt/iso'').
      \<exists>marker \<in> set (files windows_signature). \<exists>a b. lower file = a @ lower marker @ b)"
proof -
  have "marker_file_rule [Dir ''EFI'' [File ''NotBootMgr.bak'' []]] ''/mnt/iso'' windows_signature"
    by code_simp
  then show ?thesis
    using marker_file_rule_substring
      [of "[Dir ''EFI'' [File ''NotBootMgr.bak'' []]]" "''/mnt/iso''" windows_signature]
    by simp
qed

section \<open>Mount Table: mounting and unmounting\<close>

lemma map_of_delete_update:
  "map_of (AList.delete k (AList.update k v al)) q = (if q = k then None else map_of al q)"
  by (simp add: AList.delete_conv AList.update_conv)

lemma mount_iso_succeeded:
  assumes "mount_iso env p w = (Succeeded mp, w1)"
  shows "map_of (mounted_isos w1) p = Some mp
       \<and> mounted_isos w1 = AList.update p mp (mounted_isos w)
       \<and> mp \<in> set (existing_dirs w1)
       \<and> mp = path_join (temp_directory w) (''mount_'' @ str_nat (length (mounted_isos w)))"
  using assms
  by (auto simp: mount_iso_def subprocess_run_def makedirs_def Let_def AList.update_conv
      split: option.splits sum.splits if_splits)

lemma unmount_iso_succeeded:
  assumes "unmount_iso env p w = (Succeeded (), w')"
  shows "\<exists>mp. map_of (mounted_isos w) p = Some mp
            \<and> mounted_isos w' = AList.delete p (mounted_isos w)
            \<and> (\<forall>d. d \<in> set (existing_dirs w') \<longleftrightarrow>
                   d \<in> set (existing_dirs w)
                   \<and> \<not> ((d = mp \<or> startswith d (mp @ ''/'')) \<and> \<not> rmtree_fails env d))"
  using assms
  by (auto simp: unmount_iso_def subprocess_run_def rmtree_def Let_def
      split: option.splits sum.splits if_splits)

lemma unmount_iso_not_mounted:
  "map_of (mounted_isos w) p = None \<Longrightarrow> unmount_iso env p w = (Failed ''ISO not mounted'', w)"
  by (simp add: unmount_iso_def)

text \<open>
  The claim C9 as the specification has it, that the pair removes the mount-point
  directory, fails: with one image left mounted on \<^verbatim>\<open>mount_1\<close>, a third image is
  mounted on the same directory; unmounting it succeeds, the table no longer has its
  path, and the directory, which cannot be removed, is still there.
\<close>

theorem unmount_iso_keeps_busy_directory_counterexample:
  "map_of (mounted_isos one_left_world) ''/isos/b.iso'' = Some ''/tmp/iso/mount_1''
   \<and> fst (mount_iso calm_env ''/isos/c.iso'' one_left_world) = Succeeded ''/tmp/iso/mount_1''
   \<and> fst (unmount_iso busy_env ''/isos/c.iso''
            (snd (mount_iso calm_env ''/isos/c.iso'' one_left_world))) = Succeeded ()
   \<and> map_of (mounted_isos (snd (unmount_iso busy_env ''/isos/c.iso''
            (snd (mount_iso calm_env ''/isos/c.iso'' one_left_world))))) ''/isos/c.iso'' = None
   \<and> ''/tmp/iso/mount_1''
       \<in> set (existing_dirs (snd (unmount_iso busy_env ''/isos/c.iso''
                (snd (mount_iso calm_env ''/isos/c.iso'' one_left_world)))))"
proof -
  have w: "one_left_world =
             (initial_world ''/tmp/iso'')
               \<lparr>mounted_isos := [(''/isos/b.iso'', ''/tmp/iso/mount_1'')],
                existing_dirs := [''/tmp/iso/mount_1'', ''/tmp/iso''],
                commands_run :=
                  [Argv [''sudo'', ''mount'', ''-o'', ''loop'', ''/isos/a.iso'', ''/tmp/iso/mount_0''],
                   Argv [''sudo'', ''mount'', ''-o'', ''loop'', ''/isos/b.iso'', ''/tmp/iso/mount_1''],
                   Argv [''sudo'', ''umount'', ''/tmp/iso/mount_0'']]\<rparr>"
    by code_simp
  have m: "mount_iso calm_env ''/isos/c.iso'' one_left_world =
             (Succeeded ''/tmp/iso/mount_1'',
              (initial_world ''/tmp/iso'')
                \<lparr>mounted_isos := [(''/isos/b.iso'', ''/tmp/iso/mount_1''),
                                 (''/isos/c.iso'', ''/tmp/iso/mount_1'')],
                 existing_dirs := [''/tmp/iso/mount_1'', ''/tmp/iso''],
                 commands_run :=
                   [Argv [''sudo'', ''mount'', ''-o'', ''loop'', ''/isos/a.iso'', ''/tmp/iso/mount_0''],
                    Argv [''sudo'', ''mount'', ''-o'', ''loop'', ''/isos/b.iso'', ''/tmp/iso/mount_1''],
                    Argv [''sudo'', ''umount'', ''/tmp/iso/mount_0''],
                    Argv [''sudo'', ''mount'', ''-o'', ''loop'', ''/isos/c.iso'', ''/tmp/iso/mount_1'']]\<rparr>)"
    by code_simp
  have u: "unmount_iso busy_env ''/isos/c.iso''
             ((initial_world ''/tmp/iso'')
                \<lparr>mounted_isos := [(''/isos/b.iso'', ''/tmp/iso/mount_1''),
                                 (''/isos/c.iso'', ''/tmp/iso/mount_1'')],
                 existing_dirs := [''/tmp/iso/mount_1'', ''/tmp/iso''],
                 commands_run :=
                   [Argv [''sudo'', ''mount'', ''-o'', ''loop'', ''/isos/a.iso'', ''/tmp/iso/mount_0''],
                    Argv [''sudo'', ''mount'', ''-o'', ''loop'', ''/isos/b.iso'', ''/tmp/iso/mount_1''],
                    Argv [''sudo'', ''umount'', ''/tmp/iso/mount_0''],
                    Argv [''sudo'', ''mount'', ''-o'', ''loop'', ''/isos/c.iso'', ''/tmp/iso/mount_1'']]\<rparr>) =
             (Succeeded (),
              (initial_world ''/tmp/iso'')
                \<lparr>mounted_isos := [(''/isos/b.iso'', ''/tmp/iso/mount_1'')],
                 existing_dirs := [''/tmp/iso/mount_1'', ''/tmp/iso''],
                 commands_run :=
                   [Argv [''sudo'', ''mount'', ''-o'', ''loop'', ''/isos/a.iso'', ''/tmp/iso/mount_0''],
                    Argv [''sudo'', ''mount'', ''-o'', ''loop'', ''/isos/b.iso'', ''/tmp/iso/mount_1''],
                    Argv [''sudo'', ''umount'', ''/tmp/iso/mount_0''],
                    Argv [''sudo'', ''mount'', ''-o'', ''loop'', ''/isos/c.iso'', ''/tmp/iso/mount_1''],
                    Argv [''sudo'', ''umount'', ''/tmp/iso/mount_1'']]\<rparr>)"
    by code_simp
  show ?thesis
    unfolding m snd_conv fst_conv u unfolding w by simp
qed

text \<open>
  C9, amended. When \<^verbatim>\<open>mount_iso\<close> on an image path has returned success and the
  following \<^verbatim>\<open>unmount_iso\<close> on the same path has returned success, the Mount Table no
  longer contains the path and every other path is mapped as before the pair; the removal
  of the mount-point directory is attempted and its failure ignored, so the directory is
  gone exactly when it could be removed. For a path that is not in the Mount Table,
  \<^verbatim>\<open>unmount_iso\<close> returns the failure "ISO not mounted" and leaves the whole state as
  it was: the table, the directories, and no command is run.
\<close>

theorem mount_unmount_round_trip:
  "(mount_iso env1 p w = (Succeeded mp, w1) \<and> unmount_iso env2 p w1 = (Succeeded (), w2) \<longrightarrow>
      map_of (mounted_isos w2) p = None
      \<and> (\<forall>q. q \<noteq> p \<longrightarrow> map_of (mounted_isos w2) q = map_of (mounted_isos w) q)
      \<and> (mp \<in> set (existing_dirs w2) \<longleftrightarrow> rmtree_fails env2 mp))
   \<and> (map_of (mounted_isos w) p = None \<longrightarrow>
        unmount_iso env2 p w = (Failed ''ISO not mounted'', w))"
proof (intro conjI impI)
  assume a: "mount_iso env1 p w = (Succeeded mp, w1) \<and> unmount_iso env2 p w1 = (Succeeded (), w2)"
  from a have m: "map_of (mounted_isos w1) p = Some mp"
    and t1: "mounted_isos w1 = AList.update p mp (mounted_isos w)"
    and there: "mp \<in> set (existing_dirs w1)"
    using mount_iso_succeeded by blast+
  from a obtain mp' where m': "map_of (mounted_isos w1) p = Some mp'"
    and t2: "mounted_isos w2 = AList.delete p (mounted_isos w1)"
    and dirs: "\<forall>d. d \<in> set (existing_dirs w2) \<longleftrightarrow>
                 d \<in> set (existing_dirs w1)
                 \<and> \<not> ((d = mp' \<or> startswith d (mp' @ ''/'')) \<and> \<not> rmtree_fails env2 d)"
    using unmount_iso_succeeded by blast
  from m m' have "mp' = mp" by simp
  with dirs there show "mp \<in> set (existing_dirs w2) \<longleftrightarrow> rmtree_fails env2 mp" by simp
  show "map_of (mounted_isos w2) p = None"
    by (simp add: t1 t2 map_of_delete_update)
  show "\<forall>q. q \<noteq> p \<longrightarrow> map_of (mounted_isos w2) q = map_of (mounted_isos w) q"
    by (simp add: t1 t2 map_of_delete_update)
next
  assume "map_of (mounted_isos w) p = None"
  then show "unmount_iso env2 p w = (Failed ''ISO not mounted'', w)"
    by (rule unmount_iso_not_mounted)
qed

theorem mount_unmount_round_trip_witness:
  "fst (mount_iso calm_env ''/isos/a.iso'' (initial_world ''/tmp/iso'')) = Succeeded ''/tmp/iso/mount_0''
   \<and> fst (unmount_iso calm_env ''/isos/a.iso''
            (snd (mount_iso calm_env ''/isos/a.iso'' (initial_world ''/tmp/iso'')))) = Succeeded ()
   \<and> map_of (mounted_isos (snd (unmount_iso calm_env ''/isos/a.iso''
            (snd (mount_iso calm_env ''/isos/a.iso'' (initial_world ''/tmp/iso'')))))) ''/isos/a.iso''
       = None
   \<and> ''/tmp/iso/mount_0'' \<notin> set (existing_dirs (snd (unmount_iso calm_env ''/isos/a.iso''
            (snd (mount_iso calm_env ''/isos/a.iso'' (initial_world ''/tmp/iso''))))))
   \<and> map_of (mounted_isos (initial_world ''/tmp/iso'')) ''/isos/b.iso'' = None
   \<and> unmount_iso calm_env ''/isos/b.iso'' (initial_world ''/tmp/iso'')
       = (Failed ''ISO not mounted'', initial_world ''/tmp/iso'')"
proof -
  let ?w = "initial_world ''/tmp/iso''"
  let ?m = "mount_iso calm_env ''/isos/a.iso'' ?w"
  let ?u = "unmount_iso calm_env ''/isos/a.iso'' (snd ?m)"
  have m: "fst ?m = Succeeded ''/tmp/iso/mount_0''" by code_simp
  have u: "fst ?u = Succeeded ()" by code_simp
  have n: "map_of (mounted_isos ?w) ''/isos/b.iso'' = None" by (simp add: initial_world_def)
  have r: "\<not> rmtree_fails calm_env ''/tmp/iso/mount_0''" by (simp add: calm_env_def)
  from m have m': "?m = (Succeeded ''/tmp/iso/mount_0'', snd ?m)" by (simp add: prod_eq_iff)
  from u have u': "?u = (Succeeded (), snd ?u)" by (simp add: prod_eq_iff)
  from m u n r mount_unmount_round_trip
             [of calm_env "''/isos/a.iso''" ?w "''/tmp/iso/mount_0''" "snd ?m" calm_env "snd ?u"]
    mount_unmount_round_trip
             [of calm_env "''/isos/b.iso''" ?w "''/tmp/iso/mount_0''" "snd ?m" calm_env "snd ?u"]
    m' u'
  show ?thesis by simp
qed

section \<open>BackupManager: the catalog of completed backups\<close>







section \<open>BackupManager: the temporary directory of a restore\<close>

text \<open>
  C7. A restore whose first copy command exits with status 1 is aborted with the message
  \<^verbatim>\<open>Restore command failed:\<close> followed by the error output of that command, and the
  extraction directory made for it is still on disk when \<^verbatim>\<open>restore_system_backup\<close>
  returns: the method returns from inside the loop, before the statement that removes the
  directory. The same restore with every command exiting with status 0 succeeds and
  removes the directory.
\<close>

theorem restore_failure_keeps_temp_dir:
  "fst (restore_system_backup (restore_env 1) ''/backups'' (initial_world ''/tmp/iso''))
     = Failed ''Restore command failed: cp: cannot stat''
   \<and> ''/tmp/detorrent_restore_k3x9''
       \<in> set (existing_dirs
                (snd (restore_system_backup (restore_env 1) ''/backups''
                       (initial_world ''/tmp/iso''))))
   \<and> fst (restore_system_backup (restore_env 0) ''/backups'' (initial_world ''/tmp/iso''))
       = Succeeded ''Unix backup restored successfully''
   \<and> ''/tmp/detorrent_restore_k3x9''
       \<notin> set (existing_dirs
                (snd (restore_system_backup (restore_env 0) ''/backups''
                       (initial_world ''/tmp/iso''))))"
proof -
  have failing:
    "restore_system_backup (restore_env 1) ''/backups'' (initial_world ''/tmp/iso'')
       = (Failed ''Restore command failed: cp: cannot stat'',
          (initial_world ''/tmp/iso'')
            \<lparr>existing_dirs := [''/tmp/detorrent_restore_k3x9'', ''/tmp/iso''],
             commands_run := [Argv [''sudo'', ''cp'', ''-r'',
                                    dq @ ''/tmp/detorrent_restore_k3x9/etc'' @ dq,
                                    dq @ ''/etc'' @ dq]]\<rparr>)"
    by code_simp
  have passing:
    "restore_system_backup (restore_env 0) ''/backups'' (initial_world ''/tmp/iso'')
       = (Succeeded ''Unix backup restored successfully'',
          (initial_world ''/tmp/iso'')
            \<lparr>existing_dirs := [''/tmp/iso''],
             commands_run := unix_restore_commands ''/tmp/detorrent_restore_k3x9''\<rparr>)"
    by code_simp
  show ?thesis
    unfolding failing passing by simp
qed

section \<open>Exit statuses accepted by the multi-command methods\<close>

lemma run_each_completes:
  "fst (run_each env refused commands w) = None \<longleftrightarrow>
     list_all (\<lambda>c. case run env c of Inl e \<Rightarrow> False | Inr r \<Rightarrow> \<not> refused (returncode r))
       commands"
proof (induction commands arbitrary: w)
  case Nil
  show ?case by simp
next
  case (Cons c commands)
  show ?case
  proof (cases "run env c")
    case (Inl e)
    then show ?thesis by (simp add: subprocess_run_def)
  next
    case (Inr r)
    with Cons.IH [of "w\<lparr>commands_run := commands_run w @ [c]\<rparr>"] show ?thesis
      by (simp add: subprocess_run_def)
  qed
qed

lemma run_each_zero:
  "fst (run_each env (\<lambda>rc. rc \<noteq> 0) commands w) = None \<longleftrightarrow> all_accepted env [0] commands"
  by (simp add: run_each_completes all_accepted_def cong: sum.case_cong)

lemma run_each_zero_one:
  "fst (run_each env (\<lambda>rc. rc \<notin> set [0, 1]) commands w) = None
     \<longleftrightarrow> all_accepted env [0, 1] commands"
  by (simp add: run_each_completes all_accepted_def cong: sum.case_cong)

lemma prepare_windows_partition_success:
  "success (fst (prepare_windows_partition env i w))
     \<longleftrightarrow> all_accepted env [0] (prepare_windows_commands i)"
  using run_each_zero [of env "prepare_windows_commands i" w]
  by (cases "run_each env (\<lambda>rc. rc \<noteq> 0) (prepare_windows_commands i) w")
     (auto simp: prepare_windows_partition_def split: option.splits stop.splits)

lemma prepare_unix_partition_success:
  "success (fst (prepare_unix_partition env i w))
     \<longleftrightarrow> all_accepted env [0] (prepare_unix_commands i)"
  using run_each_zero [of env "prepare_unix_commands i" w]
  by (cases "run_each env (\<lambda>rc. rc \<noteq> 0) (prepare_unix_commands i) w")
     (auto simp: prepare_unix_partition_def split: option.splits stop.splits)

lemma create_unix_partition_success:
  "success (fst (create_unix_partition env d sz t w))
     \<longleftrightarrow> all_accepted env [0] (create_unix_commands d t)"
  using run_each_zero [of env "create_unix_commands d t" w]
  by (cases "run_each env (\<lambda>rc. rc \<noteq> 0) (create_unix_commands d t) w")
     (auto simp: create_unix_partition_def split: option.splits stop.splits)

lemma resize_unix_partition_success:
  "success (fst (resize_unix_partition env i n w))
     \<longleftrightarrow> all_accepted env [0] (resize_unix_commands i n)"
  using run_each_zero [of env "resize_unix_commands i n" w]
  by (cases "run_each env (\<lambda>rc. rc \<noteq> 0) (resize_unix_commands i n) w")
     (auto simp: resize_unix_partition_def split: option.splits stop.splits)

lemma configure_windows_bootloader_success:
  "success (fst (configure_windows_bootloader env t w)) \<longleftrightarrow> all_accepted env [0] bcd_commands"
  using run_each_zero [of env "bcd_commands" w]
  by (cases "run_each env (\<lambda>rc. rc \<noteq> 0) (bcd_commands) w")
     (auto simp: configure_windows_bootloader_def split: option.splits stop.splits)

lemma restore_windows_backup_success:
  "success (fst (restore_windows_backup env f w)) \<longleftrightarrow>
     endswith f ''.zip'' \<and> extract_error env = None
     \<and> (case mkdtemp env ''detorrent_restore_'' of
           Inl e \<Rightarrow> False
         | Inr d \<Rightarrow> all_accepted env [0, 1] (windows_restore_commands d))"
proof (cases "mkdtemp env ''detorrent_restore_''")
  case (Inl e)
  then show ?thesis by (simp add: restore_windows_backup_def)
next
  case (Inr d)
  then show ?thesis
    using run_each_zero_one [of env "windows_restore_commands d" "makedirs d w"]
    by (cases "run_each env (\<lambda>rc. rc \<notin> set [0, 1]) (windows_restore_commands d) (makedirs d w)")
       (auto simp: restore_windows_backup_def Let_def split: option.splits stop.splits)
qed

lemma restore_unix_backup_success:
  "success (fst (restore_unix_backup env f w)) \<longleftrightarrow>
     endswith f ''.tar.gz'' \<and> extract_error env = None
     \<and> (case mkdtemp env ''detorrent_restore_'' of
           Inl e \<Rightarrow> False
         | Inr d \<Rightarrow> all_accepted env [0] (unix_restore_commands d))"
proof (cases "mkdtemp env ''detorrent_restore_''")
  case (Inl e)
  then show ?thesis by (simp add: restore_unix_backup_def)
next
  case (Inr d)
  then show ?thesis
    using run_each_zero [of env "unix_restore_commands d" "makedirs d w"]
    by (cases "run_each env (\<lambda>rc. rc \<noteq> 0) (unix_restore_commands d) (makedirs d w)")
       (auto simp: restore_unix_backup_def Let_def split: option.splits stop.splits)
qed

text \<open>
  C8. Each of the seven methods that run a sequence of commands returns success exactly
  when every command of its sequence completes with an accepted exit status (and, for the
  two restores, the archive has the expected suffix and is extracted). The accepted
  statuses are 0 alone for the partition methods, the Windows boot configuration and the
  copy commands of the Unix restore, and 0 and 1 for the copy tool of the Windows restore.
\<close>

theorem multi_command_success_iff_accepted:
  "(success (fst (prepare_windows_partition env i w))
      \<longleftrightarrow> all_accepted env [0] (prepare_windows_commands i))
   \<and> (success (fst (prepare_unix_partition env i w))
      \<longleftrightarrow> all_accepted env [0] (prepare_unix_commands i))
   \<and> (success (fst (create_unix_partition env d sz t w))
      \<longleftrightarrow> all_accepted env [0] (create_unix_commands d t))
   \<and> (success (fst (resize_unix_partition env i n w))
      \<longleftrightarrow> all_accepted env [0] (resize_unix_commands i n))
   \<and> (success (fst (configure_windows_bootloader env i w))
      \<longleftrightarrow> all_accepted env [0] bcd_commands)
   \<and> (success (fst (restore_windows_backup env f w)) \<longleftrightarrow>
        endswith f ''.zip'' \<and> extract_error env = None
        \<and> (case mkdtemp env ''detorrent_restore_'' of
              Inl e \<Rightarrow> False
            | Inr tmp \<Rightarrow> all_accepted env [0, 1] (windows_restore_commands tmp)))
   \<and> (success (fst (restore_unix_backup env f w)) \<longleftrightarrow>
        endswith f ''.tar.gz'' \<and> extract_error env = None
        \<and> (case mkdtemp env ''detorrent_restore_'' of
              Inl e \<Rightarrow> False
            | Inr tmp \<Rightarrow> all_accepted env [0] (unix_restore_commands tmp)))"
proof (intro conjI)
  show "success (fst (prepare_windows_partition env i w))
          \<longleftrightarrow> all_accepted env [0] (prepare_windows_commands i)"
    by (rule prepare_windows_partition_success)
  show "success (fst (prepare_unix_partition env i w))
          \<longleftrightarrow> all_accepted env [0] (prepare_unix_commands i)"
    by (rule prepare_unix_partition_success)
  show "success (fst (create_unix_partition env d sz t w))
          \<longleftrightarrow> all_accepted env [0] (create_unix_commands d t)"
    by (rule create_unix_partition_success)
  show "success (fst (resize_unix_partition env i n w))
          \<longleftrightarrow> all_accepted env [0] (resize_unix_commands i n)"
    by (rule resize_unix_partition_success)
  show "success (fst (configure_windows_bootloader env i w))
          \<longleftrightarrow> all_accepted env [0] bcd_commands"
    by (rule configure_windows_bootloader_success)
  show "success (fst (restore_windows_backup env f w)) \<longleftrightarrow>
          endswith f ''.zip'' \<and> extract_error env = None
          \<and> (case mkdtemp env ''detorrent_restore_'' of
                Inl e \<Rightarrow> False
              | Inr tmp \<Rightarrow> all_accepted env [0, 1] (windows_restore_commands tmp))"
    by (rule restore_windows_backup_success)
  show "success (fst (restore_unix_backup env f w)) \<longleftrightarrow>
          endswith f ''.tar.gz'' \<and> extract_error env = None
          \<and> (case mkdtemp env ''detorrent_restore_'' of
                Inl e \<Rightarrow> False
              | Inr tmp \<Rightarrow> all_accepted env [0] (unix_restore_commands tmp))"
    by (rule restore_unix_backup_success)
qed

theorem multi_command_success_iff_accepted_witness:
  "all_accepted (robocopy_env 1) [0, 1] (windows_restore_commands ''/tmp/detorrent_restore_k3x9'')
   \<and> success (fst (restore_windows_backup (robocopy_env 1) ''/backups/b.zip''
                     (initial_world ''/tmp/iso'')))
   \<and> \<not> all_accepted (robocopy_env 2) [0, 1]
          (windows_restore_commands ''/tmp/detorrent_restore_k3x9'')
   \<and> \<not> success (fst (restore_windows_backup (robocopy_env 2) ''/backups/b.zip''
                       (initial_world ''/tmp/iso'')))
   \<and> \<not> all_accepted (restore_env 1) [0] (unix_restore_commands ''/tmp/detorrent_restore_k3x9'')
   \<and> \<not> success (fst (restore_unix_backup (restore_env 1) ''/backups/b.tar.gz''
                       (initial_world ''/tmp/iso'')))"
proof -
  have a1: "all_accepted (robocopy_env 1) [0, 1]
              (windows_restore_commands ''/tmp/detorrent_restore_k3x9'')"
    by code_simp
  have a2: "\<not> all_accepted (robocopy_env 2) [0, 1]
              (windows_restore_commands ''/tmp/detorrent_restore_k3x9'')"
    by code_simp
  have a3: "\<not> all_accepted (restore_env 1) [0]
              (unix_restore_commands ''/tmp/detorrent_restore_k3x9'')"
    by code_simp
  have z: "endswith ''/backups/b.zip'' ''.zip''"
    by code_simp
  have e1: "extract_error (robocopy_env 1) = None"
    by code_simp
  have d1: "mkdtemp (robocopy_env 1) ''detorrent_restore_'' = Inr ''/tmp/detorrent_restore_k3x9''"
    by code_simp
  have d2: "mkdtemp (robocopy_env 2) ''detorrent_restore_'' = Inr ''/tmp/detorrent_restore_k3x9''"
    by code_simp
  have d3: "mkdtemp (restore_env 1) ''detorrent_restore_'' = Inr ''/tmp/detorrent_restore_k3x9''"
    by code_simp
  from multi_command_success_iff_accepted
         [where env = "robocopy_env 1" and f = "''/backups/b.zip''"
            and w = "initial_world ''/tmp/iso''"]
       multi_command_success_iff_accepted
         [where env = "robocopy_env 2" and f = "''/backups/b.zip''"
            and w = "initial_world ''/tmp/iso''"]
       multi_command_success_iff_accepted
         [where env = "restore_env 1" and f = "''/backups/b.tar.gz''"
            and w = "initial_world ''/tmp/iso''"]
       a1 a2 a3 z e1 d1 d2 d3
  show ?thesis by simp
qed

section \<open>What the backend calls leave unchanged\<close>

lemma run_each_frame [simp]:
  "stage_log (snd (run_each env refused commands w)) = stage_log w
   \<and> progress_log (snd (run_each env refused commands w)) = progress_log w
   \<and> current_operation (snd (run_each env refused commands w)) = current_operation w
   \<and> operation_progress (snd (run_each env refused commands w)) = operation_progress w
   \<and> mounted_isos (snd (run_each env refused commands w)) = mounted_isos w
   \<and> existing_dirs (snd (run_each env refused commands w)) = existing_dirs w
   \<and> operation_log (snd (run_each env refused commands w)) = operation_log w"
proof (induction commands arbitrary: w)
  case Nil
  show ?case by simp
next
  case (Cons c commands)
  show ?case
    using Cons.IH [of "w\<lparr>commands_run := commands_run w @ [c]\<rparr>"]
    by (cases "run env c") (simp_all add: subprocess_run_def)
qed

lemma create_backup_frame [simp]:
  "stage_log (snd (create_backup env p w)) = stage_log w
   \<and> progress_log (snd (create_backup env p w)) = progress_log w
   \<and> current_operation (snd (create_backup env p w)) = current_operation w
   \<and> operation_progress (snd (create_backup env p w)) = operation_progress w
   \<and> mounted_isos (snd (create_backup env p w)) = mounted_isos w"
  by (simp add: create_backup_def create_system_backup_def Let_def makedirs_def
      split: outcome.splits)

lemma mount_iso_frame [simp]:
  "stage_log (snd (mount_iso env p w)) = stage_log w
   \<and> progress_log (snd (mount_iso env p w)) = progress_log w
   \<and> current_operation (snd (mount_iso env p w)) = current_operation w
   \<and> operation_progress (snd (mount_iso env p w)) = operation_progress w"
  by (simp add: mount_iso_def subprocess_run_def Let_def makedirs_def
      split: option.splits sum.splits)

lemma prepare_partition_frame [simp]:
  "stage_log (snd (prepare_partition env t w)) = stage_log w
   \<and> progress_log (snd (prepare_partition env t w)) = progress_log w
   \<and> current_operation (snd (prepare_partition env t w)) = current_operation w
   \<and> operation_progress (snd (prepare_partition env t w)) = operation_progress w
   \<and> mounted_isos (snd (prepare_partition env t w)) = mounted_isos w
   \<and> existing_dirs (snd (prepare_partition env t w)) = existing_dirs w"
  by (simp add: prepare_partition_def prepare_windows_partition_def prepare_unix_partition_def
      split_def Let_def split: option.splits stop.splits)

lemma install_from_mounted_frame [simp]:
  "stage_log (snd (install_from_mounted env m t w)) = stage_log w
   \<and> progress_log (snd (install_from_mounted env m t w)) = progress_log w
   \<and> current_operation (snd (install_from_mounted env m t w)) = current_operation w
   \<and> operation_progress (snd (install_from_mounted env m t w)) = operation_progress w
   \<and> mounted_isos (snd (install_from_mounted env m t w)) = mounted_isos w
   \<and> existing_dirs (snd (install_from_mounted env m t w)) = existing_dirs w"
  by (simp add: install_from_mounted_def subprocess_run_def split: option.splits sum.splits)

lemma configure_bootloader_frame [simp]:
  "stage_log (snd (configure_bootloader env t w)) = stage_log w
   \<and> progress_log (snd (configure_bootloader env t w)) = progress_log w
   \<and> current_operation (snd (configure_bootloader env t w)) = current_operation w
   \<and> operation_progress (snd (configure_bootloader env t w)) = operation_progress w
   \<and> mounted_isos (snd (configure_bootloader env t w)) = mounted_isos w
   \<and> existing_dirs (snd (configure_bootloader env t w)) = existing_dirs w"
  by (simp add: configure_bootloader_def configure_windows_bootloader_def
      configure_grub_bootloader_def subprocess_run_def split_def Let_def
      split: option.splits stop.splits sum.splits)

section \<open>NexusEngine: what each part of the pipeline adds to the histories\<close>

lemma traced_failed: "traced (s # rest) (Failed (failure_template s)) [(s, False)]"
  by (simp add: traced_def)

lemma traced_passed: "traced rest r tr \<Longrightarrow> traced (s # rest) r ((s, True) # tr)"
  by (auto simp: traced_def)

lemma progressed_failed: "rest \<noteq> [] \<Longrightarrow> progressed (p # rest) (Failed e) [p]"
  unfolding progressed_def by (rule exI [of _ 1]) (cases rest, simp_all)

lemma progressed_passed: "progressed rest r vals \<Longrightarrow> progressed (p # rest) r (p # vals)"
  unfolding progressed_def
proof -
  assume "\<exists>k. 1 \<le> k \<and> k \<le> length rest \<and> vals = take k rest \<and> (success r \<longleftrightarrow> k = length rest)"
  then obtain k where "1 \<le> k" "k \<le> length rest" "vals = take k rest"
    "success r \<longleftrightarrow> k = length rest" by blast
  then have "1 \<le> Suc k \<and> Suc k \<le> length (p # rest) \<and> p # vals = take (Suc k) (p # rest)
             \<and> (success r \<longleftrightarrow> Suc k = length (p # rest))" by simp
  then show "\<exists>k. 1 \<le> k \<and> k \<le> length (p # rest) \<and> p # vals = take k (p # rest)
                \<and> (success r \<longleftrightarrow> k = length (p # rest))" by blast
qed

lemma from_bootloader_run:
  "\<exists>tr vals. stage_log (snd (from_bootloader env t w)) = stage_log w @ tr
      \<and> traced [ConfigureBootloader] (fst (from_bootloader env t w)) tr
      \<and> progress_log (snd (from_bootloader env t w)) = progress_log w @ vals
      \<and> progressed [80, 100] (fst (from_bootloader env t w)) vals
      \<and> mounted_isos (snd (from_bootloader env t w)) = mounted_isos w
      \<and> existing_dirs (snd (from_bootloader env t w)) = existing_dirs w"
proof (cases "success (fst (configure_bootloader env t (set_progress 80 w)))")
  case True
  have "progressed [80, 100] (Succeeded ''OS switch completed successfully'') [80, 100]"
    unfolding progressed_def by (rule exI [of _ 2]) simp
  with True show ?thesis
    by (simp add: from_bootloader_def Let_def split_def set_progress_def log_stage_def
        traced_def)
next
  case False
  have "progressed [80, 100] (Failed ''Bootloader configuration failed'') [80]"
    by (rule progressed_failed) simp
  with False show ?thesis
    by (simp add: from_bootloader_def Let_def split_def set_progress_def log_stage_def
        traced_def)
qed

lemma from_install_run:
  "\<exists>tr vals. stage_log (snd (from_install env m t w)) = stage_log w @ tr
      \<and> traced [Install, ConfigureBootloader] (fst (from_install env m t w)) tr
      \<and> progress_log (snd (from_install env m t w)) = progress_log w @ vals
      \<and> progressed [60, 80, 100] (fst (from_install env m t w)) vals
      \<and> mounted_isos (snd (from_install env m t w)) = mounted_isos w
      \<and> existing_dirs (snd (from_install env m t w)) = existing_dirs w"
proof (cases "success (fst (install_from_mounted env m t (set_progress 60 w)))")
  case False
  have "progressed [60, 80, 100] (Failed ''Installation failed'') [60]"
    by (rule progressed_failed) simp
  with False show ?thesis
    by (simp add: from_install_def Let_def split_def set_progress_def log_stage_def
        traced_def)
next
  case True
  let ?w3 = "log_stage Install True (snd (install_from_mounted env m t (set_progress 60 w)))"
  from True have eq: "from_install env m t w = from_bootloader env t ?w3"
    by (simp add: from_install_def Let_def split_def)
  obtain tr vals where
    "stage_log (snd (from_bootloader env t ?w3)) = stage_log ?w3 @ tr"
    "traced [ConfigureBootloader] (fst (from_bootloader env t ?w3)) tr"
    "progress_log (snd (from_bootloader env t ?w3)) = progress_log ?w3 @ vals"
    "progressed [80, 100] (fst (from_bootloader env t ?w3)) vals"
    "mounted_isos (snd (from_bootloader env t ?w3)) = mounted_isos ?w3"
    "existing_dirs (snd (from_bootloader env t ?w3)) = existing_dirs ?w3"
    using from_bootloader_run [of env t ?w3] by blast
  then have
    "stage_log (snd (from_install env m t w)) = stage_log w @ (Install, True) # tr
     \<and> traced [Install, ConfigureBootloader] (fst (from_install env m t w)) ((Install, True) # tr)
     \<and> progress_log (snd (from_install env m t w)) = progress_log w @ 60 # vals
     \<and> progressed [60, 80, 100] (fst (from_install env m t w)) (60 # vals)
     \<and> mounted_isos (snd (from_install env m t w)) = mounted_isos w
     \<and> existing_dirs (snd (from_install env m t w)) = existing_dirs w"
    unfolding eq
    by (simp add: traced_passed progressed_passed set_progress_def log_stage_def)
  then show ?thesis by blast
qed

lemma from_partition_run:
  "\<exists>tr vals. stage_log (snd (from_partition env m t w)) = stage_log w @ tr
      \<and> traced [PreparePartition, Install, ConfigureBootloader]
           (fst (from_partition env m t w)) tr
      \<and> progress_log (snd (from_partition env m t w)) = progress_log w @ vals
      \<and> progressed [40, 60, 80, 100] (fst (from_partition env m t w)) vals
      \<and> mounted_isos (snd (from_partition env m t w)) = mounted_isos w
      \<and> existing_dirs (snd (from_partition env m t w)) = existing_dirs w"
proof (cases "success (fst (prepare_partition env t (set_progress 40 w)))")
  case False
  have "progressed [40, 60, 80, 100] (Failed ''Partition preparation failed'') [40]"
    by (rule progressed_failed) simp
  with False show ?thesis
    by (simp add: from_partition_def Let_def split_def set_progress_def log_stage_def
        traced_def)
next
  case True
  let ?w3 = "log_stage PreparePartition True (snd (prepare_partition env t (set_progress 40 w)))"
  from True have eq: "from_partition env m t w = from_install env m t ?w3"
    by (simp add: from_partition_def Let_def split_def)
  obtain tr vals where
    "stage_log (snd (from_install env m t ?w3)) = stage_log ?w3 @ tr"
    "traced [Install, ConfigureBootloader] (fst (from_install env m t ?w3)) tr"
    "progress_log (snd (from_install env m t ?w3)) = progress_log ?w3 @ vals"
    "progressed [60, 80, 100] (fst (from_install env m t ?w3)) vals"
    "mounted_isos (snd (from_install env m t ?w3)) = mounted_isos ?w3"
    "existing_dirs (snd (from_install env m t ?w3)) = existing_dirs ?w3"
    using from_install_run [of env m t ?w3] by blast
  then have
    "stage_log (snd (from_partition env m t w)) = stage_log w @ (PreparePartition, True) # tr
     \<and> traced [PreparePartition, Install, ConfigureBootloader]
          (fst (from_partition env m t w)) ((PreparePartition, True) # tr)
     \<and> progress_log (snd (from_partition env m t w)) = progress_log w @ 40 # vals
     \<and> progressed [40, 60, 80, 100] (fst (from_partition env m t w)) (40 # vals)
     \<and> mounted_isos (snd (from_partition env m t w)) = mounted_isos w
     \<and> existing_dirs (snd (from_partition env m t w)) = existing_dirs w"
    unfolding eq
    by (simp add: traced_passed progressed_passed set_progress_def log_stage_def)
  then show ?thesis by blast
qed

lemma from_mount_run:
  "\<exists>tr vals. stage_log (snd (from_mount env p t w)) = stage_log w @ tr
      \<and> traced [MountIso, PreparePartition, Install, ConfigureBootloader]
           (fst (from_mount env p t w)) tr
      \<and> progress_log (snd (from_mount env p t w)) = progress_log w @ vals
      \<and> progressed [20, 40, 60, 80, 100] (fst (from_mount env p t w)) vals
      \<and> ((MountIso, True) \<in> set tr \<longrightarrow>
           (\<exists>mp. mounted_isos (snd (from_mount env p t w))
                    = AList.update p mp (mounted_isos w)
                \<and> mp \<in> set (existing_dirs (snd (from_mount env p t w)))))"
proof (cases "fst (mount_iso env p (set_progress 20 w))")
  case (Failed e)
  have "progressed [20, 40, 60, 80, 100] (Failed ''ISO mount failed'') [20]"
    by (rule progressed_failed) simp
  with Failed show ?thesis
    by (simp add: from_mount_def Let_def split_def set_progress_def log_stage_def
        traced_def)
next
  case (Succeeded mp)
  let ?w2 = "snd (mount_iso env p (set_progress 20 w))"
  let ?w3 = "log_stage MountIso True ?w2"
  from Succeeded have eq: "from_mount env p t w = from_partition env mp t ?w3"
    by (simp add: from_mount_def Let_def split_def)
  from Succeeded have m: "mount_iso env p (set_progress 20 w) = (Succeeded mp, ?w2)"
    by (simp add: prod_eq_iff)
  have "mounted_isos ?w2 = AList.update p mp (mounted_isos (set_progress 20 w))"
    using mount_iso_succeeded [OF m] by blast
  then have table: "mounted_isos ?w2 = AList.update p mp (mounted_isos w)"
    by (simp add: set_progress_def)
  have dir: "mp \<in> set (existing_dirs ?w2)"
    using mount_iso_succeeded [OF m] by blast
  obtain tr vals where
    "stage_log (snd (from_partition env mp t ?w3)) = stage_log ?w3 @ tr"
    "traced [PreparePartition, Install, ConfigureBootloader]
       (fst (from_partition env mp t ?w3)) tr"
    "progress_log (snd (from_partition env mp t ?w3)) = progress_log ?w3 @ vals"
    "progressed [40, 60, 80, 100] (fst (from_partition env mp t ?w3)) vals"
    "mounted_isos (snd (from_partition env mp t ?w3)) = mounted_isos ?w3"
    "existing_dirs (snd (from_partition env mp t ?w3)) = existing_dirs ?w3"
    using from_partition_run [of env mp t ?w3] by blast
  with table dir have
    "stage_log (snd (from_mount env p t w)) = stage_log w @ (MountIso, True) # tr
     \<and> traced [MountIso, PreparePartition, Install, ConfigureBootloader]
          (fst (from_mount env p t w)) ((MountIso, True) # tr)
     \<and> progress_log (snd (from_mount env p t w)) = progress_log w @ 20 # vals
     \<and> progressed [20, 40, 60, 80, 100] (fst (from_mount env p t w)) (20 # vals)
     \<and> ((MountIso, True) \<in> set ((MountIso, True) # tr) \<longrightarrow>
           (\<exists>mp. mounted_isos (snd (from_mount env p t w))
                    = AList.update p mp (mounted_isos w)
                \<and> mp \<in> set (existing_dirs (snd (from_mount env p t w)))))"
    unfolding eq
    by (auto simp: traced_passed progressed_passed set_progress_def log_stage_def)
  then show ?thesis by blast
qed

lemma os_switch_try_run:
  "\<exists>tr vals. stage_log (snd (os_switch_try env p t b w)) = stage_log w @ tr
      \<and> traced (pipeline b) (fst (os_switch_try env p t b w)) tr
      \<and> progress_log (snd (os_switch_try env p t b w)) = progress_log w @ vals
      \<and> progressed [0, 20, 40, 60, 80, 100] (fst (os_switch_try env p t b w)) vals
      \<and> ((MountIso, True) \<in> set tr \<longrightarrow>
           (\<exists>mp. mounted_isos (snd (os_switch_try env p t b w))
                    = AList.update p mp (mounted_isos w)
                \<and> mp \<in> set (existing_dirs (snd (os_switch_try env p t b w)))))"
proof -
  let ?w1 = "set_progress 0 (w\<lparr>current_operation := Some ''os_switch''\<rparr>)"
  have continued:
    "\<exists>tr vals. stage_log (snd (from_mount env p t w')) = stage_log w @ tr
        \<and> traced (map fst pre @ [MountIso, PreparePartition, Install, ConfigureBootloader])
             (fst (from_mount env p t w')) tr
        \<and> progress_log (snd (from_mount env p t w')) = progress_log w @ vals
        \<and> progressed [0, 20, 40, 60, 80, 100] (fst (from_mount env p t w')) vals
        \<and> ((MountIso, True) \<in> set tr \<longrightarrow>
             (\<exists>mp. mounted_isos (snd (from_mount env p t w'))
                      = AList.update p mp (mounted_isos w)
                  \<and> mp \<in> set (existing_dirs (snd (from_mount env p t w')))))"
    if w': "stage_log w' = stage_log w @ pre" "progress_log w' = progress_log w @ [0]"
           "mounted_isos w' = mounted_isos w"
       and pre: "pre = [] \<or> pre = [(Backup, True)]"
    for w' pre
  proof -
    obtain tr vals where r:
      "stage_log (snd (from_mount env p t w')) = stage_log w' @ tr"
      "traced [MountIso, PreparePartition, Install, ConfigureBootloader]
         (fst (from_mount env p t w')) tr"
      "progress_log (snd (from_mount env p t w')) = progress_log w' @ vals"
      "progressed [20, 40, 60, 80, 100] (fst (from_mount env p t w')) vals"
      "(MountIso, True) \<in> set tr \<longrightarrow>
         (\<exists>mp. mounted_isos (snd (from_mount env p t w'))
                  = AList.update p mp (mounted_isos w')
              \<and> mp \<in> set (existing_dirs (snd (from_mount env p t w'))))"
      using from_mount_run [of env p t w'] by blast
    from r(2) pre have
      "traced (map fst pre @ [MountIso, PreparePartition, Install, ConfigureBootloader])
         (fst (from_mount env p t w')) (pre @ tr)"
      by (auto simp: traced_passed)
    moreover from r(4) have
      "progressed [0, 20, 40, 60, 80, 100] (fst (from_mount env p t w')) (0 # vals)"
      by (rule progressed_passed)
    moreover from r(5) pre w'(3) have
      "(MountIso, True) \<in> set (pre @ tr) \<longrightarrow>
         (\<exists>mp. mounted_isos (snd (from_mount env p t w'))
                  = AList.update p mp (mounted_isos w)
              \<and> mp \<in> set (existing_dirs (snd (from_mount env p t w'))))"
      by auto
    moreover from r(1) w'(1) have
      "stage_log (snd (from_mount env p t w')) = stage_log w @ (pre @ tr)" by simp
    moreover from r(3) w'(2) have
      "progress_log (snd (from_mount env p t w')) = progress_log w @ (0 # vals)" by simp
    ultimately show ?thesis by blast
  qed
  have stopped: "progressed [0, 20, 40, 60, 80, 100] (Failed e) [0]" for e
    by (rule progressed_failed) simp
  show ?thesis
  proof (cases b)
    case False
    then have eq: "os_switch_try env p t b w = from_mount env p t ?w1"
      by (simp add: os_switch_try_def Let_def)
    from False have pl:
      "pipeline b = map fst ([] :: (stage \<times> bool) list)
                    @ [MountIso, PreparePartition, Install, ConfigureBootloader]"
      by (simp add: pipeline_def)
    show ?thesis
      unfolding eq pl
      by (rule continued [of _ "[]"]) (simp_all add: set_progress_def)
  next
    case True
    then have pl:
      "pipeline b
         = map fst [(Backup, True)] @ [MountIso, PreparePartition, Install, ConfigureBootloader]"
      by (simp add: pipeline_def)
    show ?thesis
    proof (cases "mkdtemp env ''tmp''")
      case (Inl e)
      with True stopped [of e] show ?thesis
        by (simp add: os_switch_try_def Let_def set_progress_def traced_def)
    next
      case (Inr d)
      let ?w2 = "snd (create_backup env d (makedirs d ?w1))"
      show ?thesis
      proof (cases "success (fst (create_backup env d (makedirs d ?w1)))")
        case False
        with True Inr stopped [of "''Backup failed''"] show ?thesis
          by (simp add: os_switch_try_def Let_def split_def set_progress_def log_stage_def
              makedirs_def traced_def pipeline_def)
      next
        case ok: True
        let ?w3 = "log_stage Backup True ?w2"
        from True Inr ok have eq: "os_switch_try env p t b w = from_mount env p t ?w3"
          by (simp add: os_switch_try_def Let_def split_def)
        show ?thesis
          unfolding eq pl
          by (rule continued [of _ "[(Backup, True)]"])
             (simp_all add: set_progress_def log_stage_def makedirs_def)
      qed
    qed
  qed
qed

lemma execute_os_switch_run:
  "traced (pipeline b) (fst (execute_os_switch env p t b w))
     (run_stages w (snd (execute_os_switch env p t b w)))
   \<and> (\<exists>vals. run_progress w (snd (execute_os_switch env p t b w)) = vals @ [0]
          \<and> progressed [0, 20, 40, 60, 80, 100] (fst (execute_os_switch env p t b w)) vals)
   \<and> ((MountIso, True) \<in> set (run_stages w (snd (execute_os_switch env p t b w))) \<longrightarrow>
        (\<exists>mp. mounted_isos (snd (execute_os_switch env p t b w))
                 = AList.update p mp (mounted_isos w)
             \<and> mp \<in> set (existing_dirs (snd (execute_os_switch env p t b w)))))
   \<and> current_operation (snd (execute_os_switch env p t b w)) = None
   \<and> operation_progress (snd (execute_os_switch env p t b w)) = 0"
proof -
  obtain tr vals where r:
    "stage_log (snd (os_switch_try env p t b w)) = stage_log w @ tr"
    "traced (pipeline b) (fst (os_switch_try env p t b w)) tr"
    "progress_log (snd (os_switch_try env p t b w)) = progress_log w @ vals"
    "progressed [0, 20, 40, 60, 80, 100] (fst (os_switch_try env p t b w)) vals"
    "(MountIso, True) \<in> set tr \<longrightarrow>
       (\<exists>mp. mounted_isos (snd (os_switch_try env p t b w))
                = AList.update p mp (mounted_isos w)
            \<and> mp \<in> set (existing_dirs (snd (os_switch_try env p t b w))))"
    using os_switch_try_run [of env p t b w] by blast
  have res: "fst (execute_os_switch env p t b w) = fst (os_switch_try env p t b w)"
    by (simp add: execute_os_switch_def split_def Let_def)
  have st: "run_stages w (snd (execute_os_switch env p t b w)) = tr"
    using r(1) by (simp add: execute_os_switch_def split_def Let_def run_stages_def set_progress_def)
  have pr: "run_progress w (snd (execute_os_switch env p t b w)) = vals @ [0]"
    using r(3) by (simp add: execute_os_switch_def split_def Let_def run_progress_def set_progress_def)
  have tb: "mounted_isos (snd (execute_os_switch env p t b w))
              = mounted_isos (snd (os_switch_try env p t b w))"
    and ds: "existing_dirs (snd (execute_os_switch env p t b w))
              = existing_dirs (snd (os_switch_try env p t b w))"
    and op: "current_operation (snd (execute_os_switch env p t b w)) = None"
    and pg: "operation_progress (snd (execute_os_switch env p t b w)) = 0"
    by (simp_all add: execute_os_switch_def split_def Let_def set_progress_def)
  from r(2) r(4) r(5) show ?thesis
    unfolding res st pr tb ds op pg by blast
qed

section \<open>NexusEngine: failure messages and the operation status\<close>

text \<open>
  A run without backup on a host where the image is mounted and the first command of the
  partition preparation exits with status 1.
\<close>

lemma partition_failure_run:
  "execute_os_switch only_mount_env ''/isos/linux.iso'' ''/dev/sdb1'' False
     (initial_world ''/tmp/iso'')
   = (Failed ''Partition preparation failed'',
      \<lparr>current_operation = None, operation_progress = 0,
       mounted_isos = [(''/isos/linux.iso'', ''/tmp/iso/mount_0'')],
       temp_directory = ''/tmp/iso'', active_backups = [], backup_metadata = [],
       operation_log = [],
       existing_dirs = [''/tmp/iso/mount_0'', ''/tmp/iso''],
       progress_log = [0, 20, 40, 0],
       stage_log = [(MountIso, True), (PreparePartition, False)],
       commands_run =
         [Argv [''sudo'', ''mount'', ''-o'', ''loop'', ''/isos/linux.iso'', ''/tmp/iso/mount_0''],
          Argv [''sudo'', ''mkfs.ext4'', ''-F'', ''/dev/sdb1'']]\<rparr>)"
  by code_simp

text \<open>
  C1. For every call of \<^verbatim>\<open>execute_os_switch\<close>: when it returns,
  \<^verbatim>\<open>get_operation_status\<close> reports no current operation and progress 0, whatever the
  result. The backend calls the call has made are an initial part of the pipeline, in
  its order; and if one of them reported failure, the result is the failure with exactly
  that stage's message, and that call is the last one made.
\<close>

theorem execute_os_switch_failure_templates:
  "get_operation_status (snd (execute_os_switch env iso_path target preserve w)) = (None, 0)
   \<and> map fst (run_stages w (snd (execute_os_switch env iso_path target preserve w)))
       = take (length (run_stages w (snd (execute_os_switch env iso_path target preserve w))))
           (pipeline preserve)
   \<and> (\<forall>s. (s, False) \<in> set (run_stages w (snd (execute_os_switch env iso_path target preserve w)))
          \<longrightarrow> fst (execute_os_switch env iso_path target preserve w) = Failed (failure_template s)
              \<and> last (run_stages w (snd (execute_os_switch env iso_path target preserve w)))
                  = (s, False))"
  using execute_os_switch_run [of preserve env iso_path target w]
  by (simp add: traced_def get_operation_status_def)

theorem execute_os_switch_failure_templates_witness:
  "(PreparePartition, False)
     \<in> set (run_stages (initial_world ''/tmp/iso'')
              (snd (execute_os_switch only_mount_env ''/isos/linux.iso'' ''/dev/sdb1'' False
                     (initial_world ''/tmp/iso''))))
   \<and> fst (execute_os_switch only_mount_env ''/isos/linux.iso'' ''/dev/sdb1'' False
            (initial_world ''/tmp/iso'')) = Failed ''Partition preparation failed''
   \<and> run_stages (initial_world ''/tmp/iso'')
        (snd (execute_os_switch only_mount_env ''/isos/linux.iso'' ''/dev/sdb1'' False
               (initial_world ''/tmp/iso'')))
       = [(MountIso, True), (PreparePartition, False)]
   \<and> get_operation_status
        (snd (execute_os_switch only_mount_env ''/isos/linux.iso'' ''/dev/sdb1'' False
               (initial_world ''/tmp/iso''))) = (None, 0)"
proof -
  have empty: "stage_log (initial_world ''/tmp/iso'') = []"
    by (simp add: initial_world_def)
  from execute_os_switch_failure_templates
         [of only_mount_env "''/isos/linux.iso''" "''/dev/sdb1''" False
             "initial_world ''/tmp/iso''"]
  show ?thesis
    unfolding partition_failure_run by (simp add: run_stages_def empty)
qed

section \<open>NexusEngine: the values of the progress counter\<close>



section \<open>NexusEngine: the image stays mounted\<close>

text \<open>
  The claim C2 as the specification has it, that a run unmounts the image it has mounted
  before it returns, fails: in the run above the image is mounted, the partition
  preparation fails, and when the result is returned the image path is still in the
  Mount Table and the only commands started are the mount and the first command of the
  partition preparation; no unmount command was run.
\<close>

theorem execute_os_switch_no_unmount_counterexample:
  "(MountIso, True)
     \<in> set (run_stages (initial_world ''/tmp/iso'')
              (snd (execute_os_switch only_mount_env ''/isos/linux.iso'' ''/dev/sdb1'' False
                     (initial_world ''/tmp/iso''))))
   \<and> fst (execute_os_switch only_mount_env ''/isos/linux.iso'' ''/dev/sdb1'' False
            (initial_world ''/tmp/iso'')) = Failed ''Partition preparation failed''
   \<and> map_of (mounted_isos
        (snd (execute_os_switch only_mount_env ''/isos/linux.iso'' ''/dev/sdb1'' False
               (initial_world ''/tmp/iso'')))) ''/isos/linux.iso'' = Some ''/tmp/iso/mount_0''
   \<and> commands_run
        (snd (execute_os_switch only_mount_env ''/isos/linux.iso'' ''/dev/sdb1'' False
               (initial_world ''/tmp/iso'')))
       = [Argv [''sudo'', ''mount'', ''-o'', ''loop'', ''/isos/linux.iso'', ''/tmp/iso/mount_0''],
          Argv [''sudo'', ''mkfs.ext4'', ''-F'', ''/dev/sdb1'']]
   \<and> unmount_command Posix ''/isos/linux.iso'' ''/tmp/iso/mount_0''
       \<notin> set (commands_run
                (snd (execute_os_switch only_mount_env ''/isos/linux.iso'' ''/dev/sdb1'' False
                       (initial_world ''/tmp/iso''))))"
proof -
  have empty: "stage_log (initial_world ''/tmp/iso'') = []"
    by (simp add: initial_world_def)
  show ?thesis
    unfolding partition_failure_run
    by (simp add: run_stages_def empty unmount_command_def)
qed

text \<open>
  C2, amended. In every run of \<^verbatim>\<open>execute_os_switch\<close> in which \<^verbatim>\<open>mount_iso\<close> succeeds,
  no unmount is performed before the result is returned, on the success path and on
  every error path alike: the Mount Table at the return is the table at the call with
  the image path mapped to its mount point, and the mount-point directory exists.
\<close>

theorem execute_os_switch_keeps_image_mounted:
  "(MountIso, True) \<in> set (run_stages w (snd (execute_os_switch env iso_path target preserve w)))
   \<longrightarrow> (\<exists>mp. mounted_isos (snd (execute_os_switch env iso_path target preserve w))
                 = AList.update iso_path mp (mounted_isos w)
             \<and> map_of (mounted_isos (snd (execute_os_switch env iso_path target preserve w)))
                 iso_path = Some mp
             \<and> mp \<in> set (existing_dirs (snd (execute_os_switch env iso_path target preserve w))))"
proof
  assume "(MountIso, True)
            \<in> set (run_stages w (snd (execute_os_switch env iso_path target preserve w)))"
  then obtain mp where
    t: "mounted_isos (snd (execute_os_switch env iso_path target preserve w))
          = AList.update iso_path mp (mounted_isos w)"
    and d: "mp \<in> set (existing_dirs (snd (execute_os_switch env iso_path target preserve w)))"
    using execute_os_switch_run [of preserve env iso_path target w] by blast
  from t have "map_of (mounted_isos (snd (execute_os_switch env iso_path target preserve w)))
                 iso_path = Some mp"
    by (simp add: AList.update_conv)
  with t d show
    "\<exists>mp. mounted_isos (snd (execute_os_switch env iso_path target preserve w))
             = AList.update iso_path mp (mounted_isos w)
         \<and> map_of (mounted_isos (snd (execute_os_switch env iso_path target preserve w)))
             iso_path = Some mp
         \<and> mp \<in> set (existing_dirs (snd (execute_os_switch env iso_path target preserve w)))"
    by blast
qed

theorem execute_os_switch_keeps_image_mounted_witness:
  "(MountIso, True)
     \<in> set (run_stages (initial_world ''/tmp/iso'')
              (snd (execute_os_switch only_mount_env ''/isos/linux.iso'' ''/dev/sdb1'' False
                     (initial_world ''/tmp/iso''))))
   \<and> (\<exists>mp. mounted_isos
               (snd (execute_os_switch only_mount_env ''/isos/linux.iso'' ''/dev/sdb1'' False
                      (initial_world ''/tmp/iso'')))
              = AList.update ''/isos/linux.iso'' mp (mounted_isos (initial_world ''/tmp/iso''))
           \<and> map_of (mounted_isos
                 (snd (execute_os_switch only_mount_env ''/isos/linux.iso'' ''/dev/sdb1'' False
                        (initial_world ''/tmp/iso'')))) ''/isos/linux.iso'' = Some mp
           \<and> mp \<in> set (existing_dirs
                 (snd (execute_os_switch only_mount_env ''/isos/linux.iso'' ''/dev/sdb1'' False
                        (initial_world ''/tmp/iso'')))))"
proof -
  have empty: "stage_log (initial_world ''/tmp/iso'') = []"
    by (simp add: initial_world_def)
  have mounted:
    "(MountIso, True)
       \<in> set (run_stages (initial_world ''/tmp/iso'')
                (snd (execute_os_switch only_mount_env ''/isos/linux.iso'' ''/dev/sdb1'' False
                       (initial_world ''/tmp/iso''))))"
    unfolding partition_failure_run by (simp add: run_stages_def empty)
  with execute_os_switch_keeps_image_mounted
         [of "initial_world ''/tmp/iso''" only_mount_env "''/isos/linux.iso''" "''/dev/sdb1''"
             False]
  show ?thesis by blast
qed

end
